theory Spec2Isabelle
  imports Main "HOL-Library.Word"
begin

section \<open>The ALSA capture source (plugins/linux-alsa/alsa-input.c)\<close>

text \<open>
  The plugin is a client of three libraries (alsa-lib, pthreads, libobs) and does nothing
  but call them, test what they return and update its \<open>struct alsa_data\<close>.  The
  embedding keeps that shape: every library call the C code makes is appended, with the
  arguments that matter, to a history of calls, and whatever the library hands back is read
  from an environment as a function of that history (the call just made being its last
  element).  The environment is arbitrary, so a theorem that quantifies over it covers
  every behaviour of the hardware and of the host.  Log output (\<open>blog\<close>) has no effect on
  control flow and is left out.
\<close>

subsection \<open>Machine types and constants\<close>

type_synonym c_int = int
  \<comment> \<open>a C \<open>int\<close> return code: only compared with 0 and with \<open>-EAGAIN\<close>, never computed with\<close>
type_synonym c_unsigned = "32 word"
type_synonym snd_pcm_uframes_t = "64 word"
  \<comment> \<open>\<open>unsigned long\<close> on LP64 Linux\<close>
type_synonym snd_pcm_sframes_t = "64 word"
  \<comment> \<open>\<open>long\<close> on LP64 Linux, read with \<open>sint\<close>\<close>
type_synonym handle = nat
  \<comment> \<open>the address behind a non-null pointer or a non-zero \<open>pthread_t\<close>\<close>

definition EAGAIN :: c_int where
  "EAGAIN = 11"
  \<comment> \<open>the value of \<open>errno.h\<close> on Linux, the only platform of this plugin\<close>

definition MAX_BUFFER_TIME_US :: c_unsigned where
  "MAX_BUFFER_TIME_US = 500000"

definition OBS_MIN :: "c_unsigned \<Rightarrow> c_unsigned \<Rightarrow> c_unsigned" where
  "OBS_MIN a b = (if a < b then a else b)"

definition OBS_MAX :: "c_unsigned \<Rightarrow> c_unsigned \<Rightarrow> c_unsigned" where
  "OBS_MAX a b = (if a > b then a else b)"

definition UINT_MAX :: c_unsigned where
  "UINT_MAX = - 1"

datatype snd_pcm_format_t =
    SND_PCM_FORMAT_U8
  | SND_PCM_FORMAT_S16_LE
  | SND_PCM_FORMAT_S32_LE
  | SND_PCM_FORMAT_FLOAT_LE
  | SND_PCM_FORMAT_OTHER nat

datatype audio_format =
    AUDIO_FORMAT_UNKNOWN
  | AUDIO_FORMAT_U8BIT_PLANAR
  | AUDIO_FORMAT_16BIT_PLANAR
  | AUDIO_FORMAT_32BIT_PLANAR
  | AUDIO_FORMAT_FLOAT_PLANAR

datatype snd_pcm_state_t =
    SND_PCM_STATE_OPEN
  | SND_PCM_STATE_SETUP
  | SND_PCM_STATE_PREPARED
  | SND_PCM_STATE_RUNNING
  | SND_PCM_STATE_XRUN
  | SND_PCM_STATE_DRAINING
  | SND_PCM_STATE_PAUSED
  | SND_PCM_STATE_SUSPENDED
  | SND_PCM_STATE_DISCONNECTED

subsection \<open>The session and the delivered buffer\<close>

record alsa_data =
  source :: handle
  thread :: "handle option"
  event :: "handle option"
  num_pollfds :: c_unsigned
  device :: string
  pcm :: "handle option"
  format :: snd_pcm_format_t
  channels :: c_unsigned
  sample_rate :: c_unsigned
  buffer_size :: snd_pcm_uframes_t
  period_size :: snd_pcm_uframes_t

text \<open>
  \<open>struct obs_source_audio\<close> is declared by libobs, outside this file; the record holds the
  fields \<open>alsa_thread\<close> assigns, each with the value assigned to it (the plane pointers all
  point into the one scratch buffer and are left out).
\<close>

record obs_source_audio =
  speakers :: nat
  samples_per_sec :: c_unsigned
  audio_fmt :: audio_format
  frames :: snd_pcm_sframes_t
  timestamp :: "64 word"

subsection \<open>Library calls and the environment\<close>

datatype call =
    Obs_property_list_clear
  | Obs_property_list_add_string string string
  | Snd_card_next int
  | Snd_ctl_open string
  | Snd_ctl_card_info
  | Snd_ctl_pcm_next_device int
  | Snd_ctl_pcm_info int
  | Snd_ctl_close
  | Snd_pcm_state
  | Snd_pcm_resume
  | Sleep nat
  | Snd_pcm_prepare
  | Os_event_signal
  | Pthread_join
  | Os_event_destroy
  | Snd_pcm_close
  | Bzalloc_audio
  | Bfree_audio
  | Snd_pcm_start
  | Get_speaker_layout c_unsigned
  | Os_event_try
  | Snd_pcm_wait int
  | Snd_pcm_mmap_readn snd_pcm_uframes_t
  | Snd_pcm_delay
  | Get_audio_sample_time snd_pcm_sframes_t c_unsigned
  | Obs_source_output_audio obs_source_audio
  | Snd_pcm_hw_params_any
  | Snd_pcm_hw_params_set_access
  | Snd_pcm_hw_params_set_format snd_pcm_format_t
  | Snd_pcm_hw_params_set_channels c_unsigned
  | Snd_pcm_hw_params_set_rate_near c_unsigned
  | Snd_pcm_hw_params_get_buffer_time_max
  | Snd_pcm_hw_params_get_period_time_min
  | Snd_pcm_hw_params_set_buffer_time_near c_unsigned
  | Snd_pcm_hw_params_set_period_time_near c_unsigned
  | Snd_pcm_hw_params_get_period_size
  | Snd_pcm_hw_params_get_buffer_size
  | Snd_pcm_hw_params
  | Snd_pcm_open string
  | Os_event_init
  | Pthread_create
  | Bfree_device
  | Bfree_data

type_synonym history = "call list"

text \<open>
  What the libraries answer.  \<open>ret\<close> is the \<open>int\<close> a call returns; the other fields are the
  values a call returns in another type or stores through a pointer argument.  A value is
  stored through a pointer argument exactly when the call reports success; otherwise the
  variable keeps what it held.  The one exception is \<open>pthread_create\<close>: POSIX leaves the
  contents of \<open>*thread\<close> undefined when the call fails (glibc stores the handle before the
  thread is cloned), so what \<open>data->thread\<close> holds after a failed call, zero or not, is the
  environment's \<open>thread_left\<close>.
\<close>

record env =
  ret :: "history \<Rightarrow> c_int"
  state_out :: "history \<Rightarrow> snd_pcm_state_t"
  sframes_out :: "history \<Rightarrow> snd_pcm_sframes_t"
  uframes_out :: "history \<Rightarrow> snd_pcm_uframes_t"
  unsigned_out :: "history \<Rightarrow> c_unsigned"
  index_out :: "history \<Rightarrow> int"
  handle_out :: "history \<Rightarrow> handle"
  name_out :: "history \<Rightarrow> string"
  layout_out :: "history \<Rightarrow> nat"
  time_out :: "history \<Rightarrow> 64 word"
  thread_left :: "history \<Rightarrow> handle option"

subsection \<open>\<open>alsa_to_obs_audio_format\<close>\<close>

fun alsa_to_obs_audio_format :: "snd_pcm_format_t \<Rightarrow> audio_format" where
  "alsa_to_obs_audio_format SND_PCM_FORMAT_U8 = AUDIO_FORMAT_U8BIT_PLANAR"
| "alsa_to_obs_audio_format SND_PCM_FORMAT_S16_LE = AUDIO_FORMAT_16BIT_PLANAR"
| "alsa_to_obs_audio_format SND_PCM_FORMAT_S32_LE = AUDIO_FORMAT_32BIT_PLANAR"
| "alsa_to_obs_audio_format SND_PCM_FORMAT_FLOAT_LE = AUDIO_FORMAT_FLOAT_PLANAR"
| "alsa_to_obs_audio_format (SND_PCM_FORMAT_OTHER n) = AUDIO_FORMAT_UNKNOWN"

subsection \<open>\<open>alsa_handle_xrun\<close>\<close>

text \<open>
  The \<open>while\<close> loop of the \<open>SUSPENDED\<close> case: it calls \<open>snd_pcm_resume\<close> and sleeps one second
  for as long as the answer is \<open>-EAGAIN\<close>, so it returns only if the device ever answers
  something else.  The result is the last answer and the history.
\<close>

partial_function (option) resume_loop :: "env \<Rightarrow> history \<Rightarrow> (c_int \<times> history) option" where
  "resume_loop e h =
     (let h1 = h @ [Snd_pcm_resume]; r = ret e h1
      in if r = - EAGAIN then resume_loop e (h1 @ [Sleep 1]) else Some (r, h1))"

text \<open>
  \<open>case SND_PCM_STATE_XRUN\<close>, which the \<open>SUSPENDED\<close> case falls into when it does not
  \<open>break\<close>: \<open>snd_pcm_prepare\<close>, then \<open>CHECK_RETURN\<close>, then \<open>break\<close> to \<open>return 0\<close>.
\<close>

definition xrun_case :: "env \<Rightarrow> history \<Rightarrow> c_int \<times> history" where
  "xrun_case e h =
     (let h1 = h @ [Snd_pcm_prepare]; r = ret e h1
      in if r < 0 then (r, h1) else (0, h1))"

definition alsa_handle_xrun :: "env \<Rightarrow> history \<Rightarrow> (c_int \<times> history) option" where
  "alsa_handle_xrun e h =
     (let h0 = h @ [Snd_pcm_state]
      in case state_out e h0 of
           SND_PCM_STATE_SUSPENDED \<Rightarrow>
             (case resume_loop e h0 of
                None \<Rightarrow> None
              | Some (r, h1) \<Rightarrow> if r \<ge> 0 then Some (0, h1) else Some (xrun_case e h1))
         | SND_PCM_STATE_XRUN \<Rightarrow> Some (xrun_case e h0)
         | _ \<Rightarrow> Some (- 1, h0))"

subsection \<open>\<open>alsa_terminate\<close> and \<open>alsa_destroy\<close>\<close>

definition alsa_terminate :: "alsa_data \<Rightarrow> history \<Rightarrow> alsa_data \<times> history" where
  "alsa_terminate d h =
     (let (d1, h1) =
            (if thread d \<noteq> None
             then (d\<lparr>thread := None\<rparr>, h @ [Os_event_signal, Pthread_join, Os_event_destroy])
             else (d, h))
      in if pcm d1 \<noteq> None
         then (d1\<lparr>pcm := None\<rparr>, h1 @ [Snd_pcm_close])
         else (d1, h1))"

text \<open>
  The argument of \<open>alsa_destroy\<close> is a pointer: \<open>None\<close> is the null pointer, \<open>Some d\<close> a
  pointer to the session \<open>d\<close>.  The result is what the pointer refers to afterwards
  (nothing, once freed) and the history.
\<close>

definition alsa_destroy :: "alsa_data option \<Rightarrow> history \<Rightarrow> alsa_data option \<times> history" where
  "alsa_destroy vptr h =
     (case vptr of
        None \<Rightarrow> (None, h)
      | Some d \<Rightarrow>
          (let (d1, h1) = alsa_terminate d h
           in (None, h1 @ [Bfree_device, Bfree_data])))"

subsection \<open>\<open>alsa_set_hwparams\<close>\<close>

text \<open>
  \<open>CHECK_RETURN\<close> returns \<open>ret\<close> when it is negative.  The four \<open>get\<close> calls and the final
  \<open>snd_pcm_hw_params\<close> are written without \<open>ret =\<close>: what they return is dropped, and the
  \<open>CHECK_RETURN\<close> after \<open>snd_pcm_hw_params\<close> tests \<open>ret\<close> as the period-time call left it.
  The values the two \<open>near\<close> calls write back into the locals \<open>buffer_time\<close> and
  \<open>period_time\<close> are never read again and are not threaded.
\<close>

definition alsa_set_hwparams :: "env \<Rightarrow> alsa_data \<Rightarrow> history \<Rightarrow> c_int \<times> alsa_data \<times> history" where
  "alsa_set_hwparams e d h =
     (let h1 = h @ [Snd_pcm_hw_params_any]; r1 = ret e h1 in
      if r1 < 0 then (r1, d, h1) else
      let h2 = h1 @ [Snd_pcm_hw_params_set_access]; r2 = ret e h2 in
      if r2 < 0 then (r2, d, h2) else
      let h3 = h2 @ [Snd_pcm_hw_params_set_format (format d)]; r3 = ret e h3 in
      if r3 < 0 then (r3, d, h3) else
      let h4 = h3 @ [Snd_pcm_hw_params_set_channels (channels d)]; r4 = ret e h4 in
      if r4 < 0 then (r4, d, h4) else
      let h5 = h4 @ [Snd_pcm_hw_params_set_rate_near (sample_rate d)]; r5 = ret e h5 in
      if r5 < 0 then (r5, d, h5) else
      let d5 = d\<lparr>sample_rate := unsigned_out e h5\<rparr>;
          h6 = h5 @ [Snd_pcm_hw_params_get_buffer_time_max];
          buffer_time = OBS_MIN (if ret e h6 < 0 then UINT_MAX else unsigned_out e h6)
                                MAX_BUFFER_TIME_US;
          h7 = h6 @ [Snd_pcm_hw_params_get_period_time_min];
          period_time = OBS_MAX (if ret e h7 < 0 then 0 else unsigned_out e h7)
                                (buffer_time div 4);
          h8 = h7 @ [Snd_pcm_hw_params_set_buffer_time_near buffer_time]; r8 = ret e h8 in
      if r8 < 0 then (r8, d5, h8) else
      let h9 = h8 @ [Snd_pcm_hw_params_set_period_time_near period_time]; r9 = ret e h9 in
      if r9 < 0 then (r9, d5, h9) else
      let h10 = h9 @ [Snd_pcm_hw_params_get_period_size];
          d10 = (if ret e h10 < 0 then d5 else d5\<lparr>period_size := uframes_out e h10\<rparr>);
          h11 = h10 @ [Snd_pcm_hw_params_get_buffer_size];
          d11 = (if ret e h11 < 0 then d10 else d10\<lparr>buffer_size := uframes_out e h11\<rparr>);
          h12 = h11 @ [Snd_pcm_hw_params] in
      if r9 < 0 then (r9, d11, h12) else (0, d11, h12))"

subsection \<open>\<open>alsa_init\<close>, \<open>alsa_update\<close>, \<open>alsa_create\<close>\<close>

text \<open>
  \<open>pthread_create\<close> starts \<open>alsa_thread\<close> on a thread of its own; here it is the call and
  the handle it stores, and the thread's run is the function \<open>alsa_thread\<close> below.  The call
  is given \<open>&data->thread\<close>, and \<open>alsa_init\<close> does not reset the field when the call fails.
\<close>

definition alsa_init :: "env \<Rightarrow> alsa_data \<Rightarrow> history \<Rightarrow> bool \<times> alsa_data \<times> history" where
  "alsa_init e d h =
     (let h1 = h @ [Snd_pcm_open (device d)] in
      if ret e h1 < 0 then (False, d, h1) else
      let d1 = d\<lparr>pcm := Some (handle_out e h1)\<rparr>;
          (r, d2, h2) = alsa_set_hwparams e d1 h1 in
      if r < 0 then (False, d2, h2) else
      let h3 = h2 @ [Os_event_init] in
      if ret e h3 \<noteq> 0 then (False, d2, h3) else
      let d3 = d2\<lparr>event := Some (handle_out e h3)\<rparr>;
          h4 = h3 @ [Pthread_create] in
      if ret e h4 \<noteq> 0 then (False, d3\<lparr>thread := thread_left e h4\<rparr>, h4) else
      (True, d3\<lparr>thread := Some (handle_out e h4)\<rparr>, h4))"

text \<open>The two settings \<open>alsa_update\<close> reads are passed as arguments.\<close>

definition alsa_update :: "env \<Rightarrow> alsa_data \<Rightarrow> string \<Rightarrow> bool \<Rightarrow> history \<Rightarrow> alsa_data \<times> history" where
  "alsa_update e d pcm_name force_mono h =
     (let (d1, h1) = alsa_terminate d h;
          d2 = d1\<lparr>device := pcm_name, channels := (if force_mono then 1 else 2)\<rparr>;
          (ok, d3, h3) = alsa_init e d2 (h1 @ [Bfree_device])
      in (d3, h3))"

definition alsa_create :: "env \<Rightarrow> string \<Rightarrow> bool \<Rightarrow> handle \<Rightarrow> history \<Rightarrow> alsa_data \<times> history" where
  "alsa_create e pcm_name force_mono src h =
     alsa_update e
       \<lparr>source = src, thread = None, event = None, num_pollfds = 0, device = [],
        pcm = None, format = SND_PCM_FORMAT_S16_LE, channels = 0, sample_rate = 48000,
        buffer_size = 0, period_size = 0\<rparr>
       pcm_name force_mono h"

subsection \<open>\<open>alsa_thread\<close>\<close>

text \<open>
  A loop body either goes round again with a new state or leaves for the label \<open>exit\<close>
  (by \<open>break\<close> from the outer loop or by \<open>goto exit\<close> from the inner one).
\<close>

datatype 'a flow = Next 'a | Exit history

type_synonym read_state = "snd_pcm_uframes_t \<times> snd_pcm_sframes_t \<times> history"
  \<comment> \<open>\<open>count\<close>, \<open>delay\<close> and the history\<close>

text \<open>Lines 269 to 277: the delay query, the timestamp, the delivery and \<open>count -= frames\<close>.\<close>

definition deliver ::
  "env \<Rightarrow> alsa_data \<Rightarrow> obs_source_audio \<Rightarrow> snd_pcm_sframes_t \<Rightarrow> read_state \<Rightarrow> read_state" where
  "deliver e d a frms s =
     (case s of (count, delay, h) \<Rightarrow>
        let h1 = h @ [Snd_pcm_delay];
            delay1 = (if ret e h1 < 0 then delay else sframes_out e h1);
            h2 = h1 @ [Get_audio_sample_time (frms + delay1) (sample_rate d)];
            a1 = a\<lparr>frames := frms, timestamp := time_out e h2\<rparr>
        in (count - frms, delay1, h2 @ [Obs_source_output_audio a1]))"

text \<open>One pass through the body of \<open>while (count > 0)\<close>.\<close>

definition read_step ::
  "env \<Rightarrow> alsa_data \<Rightarrow> obs_source_audio \<Rightarrow> read_state \<Rightarrow> read_state flow option" where
  "read_step e d a s =
     (case s of (count, delay, h) \<Rightarrow>
        let h1 = h @ [Snd_pcm_mmap_readn count]; frms = sframes_out e h1 in
        if frms = word_of_int (- EAGAIN) then Some (Next (count, delay, h1))
        else if sint frms < 0 then
          (case alsa_handle_xrun e h1 of
             None \<Rightarrow> None
           | Some (x, h2) \<Rightarrow>
               if x < 0 then Some (Exit h2)
               else Some (Next (deliver e d a frms (count, delay, h2))))
        else Some (Next (deliver e d a frms (count, delay, h1))))"

partial_function (option) read_loop ::
  "env \<Rightarrow> alsa_data \<Rightarrow> obs_source_audio \<Rightarrow> read_state \<Rightarrow> history flow option" where
  "read_loop e d a s =
     (case s of (count, delay, h) \<Rightarrow>
        if count > 0 then
          (case read_step e d a s of
             None \<Rightarrow> None
           | Some (Next s1) \<Rightarrow> read_loop e d a s1
           | Some (Exit h1) \<Rightarrow> Some (Exit h1))
        else Some (Next h))"

text \<open>
  The body of the outer loop, entered after \<open>os_event_try\<close> has answered \<open>EAGAIN\<close>:
  \<open>delay = 0\<close>, \<open>count = period_size\<close>, the wait and the read sub-loop.
\<close>

definition capture_step ::
  "env \<Rightarrow> alsa_data \<Rightarrow> obs_source_audio \<Rightarrow> history \<Rightarrow> history flow option" where
  "capture_step e d a h =
     (let h1 = h @ [Snd_pcm_wait 1000]; r = ret e h1 in
      if r = 0 \<or> r = - EAGAIN then Some (Next h1)
      else if r < 0 then
        (case alsa_handle_xrun e h1 of
           None \<Rightarrow> None
         | Some (x, h2) \<Rightarrow>
             if x < 0 then Some (Exit h2)
             else read_loop e d a (period_size d, 0, h2))
      else read_loop e d a (period_size d, 0, h1))"

partial_function (option) capture_loop ::
  "env \<Rightarrow> alsa_data \<Rightarrow> obs_source_audio \<Rightarrow> history \<Rightarrow> history option" where
  "capture_loop e d a h =
     (let h0 = h @ [Os_event_try] in
      if ret e h0 = EAGAIN then
        (case capture_step e d a h0 of
           None \<Rightarrow> None
         | Some (Next h1) \<Rightarrow> capture_loop e d a h1
         | Some (Exit h1) \<Rightarrow> Some h1)
      else Some h0)"

text \<open>
  The scratch buffer is allocated before \<open>snd_pcm_start\<close> and freed at \<open>exit\<close>; a failed
  \<open>snd_pcm_start\<close> returns without freeing it.  Its size and the plane pointers into it are
  not modelled.  The fields \<open>frames\<close> and \<open>timestamp\<close> of \<open>obs_audio\<close> are uninitialised until
  the first delivery assigns them; the \<open>0\<close> given to them here is never read.
\<close>

definition alsa_thread :: "env \<Rightarrow> alsa_data \<Rightarrow> history \<Rightarrow> history option" where
  "alsa_thread e d h =
     (let h1 = h @ [Bzalloc_audio, Snd_pcm_start] in
      if ret e h1 < 0 then Some h1 else
      let h2 = h1 @ [Get_speaker_layout (channels d)];
          a = \<lparr>speakers = layout_out e h2, samples_per_sec = sample_rate d,
               audio_fmt = alsa_to_obs_audio_format (format d), frames = 0, timestamp = 0\<rparr>
      in case capture_loop e d a h2 of
           None \<Rightarrow> None
         | Some h3 \<Rightarrow> Some (h3 @ [Bfree_audio]))"

subsection \<open>\<open>alsa_device_list\<close>\<close>

text \<open>\<open>%i\<close> of \<open>printf\<close>, and \<open>snprintf\<close> into \<open>char device_str[32]\<close>, which keeps 31 characters.\<close>

fun show_nat :: "nat \<Rightarrow> string" where
  "show_nat n =
     (if n < 10 then [''0123456789'' ! n]
      else show_nat (n div 10) @ [''0123456789'' ! (n mod 10)])"

declare show_nat.simps [simp del]

definition show_int :: "int \<Rightarrow> string" where
  "show_int i = (if i < 0 then ''-'' @ show_nat (nat (- i)) else show_nat (nat i))"

definition card_str :: "int \<Rightarrow> string" where
  "card_str cno = take 31 (''hw:'' @ show_int cno)"

definition device_str :: "int \<Rightarrow> int \<Rightarrow> string" where
  "device_str cno dev = take 31 (''plughw:'' @ show_int cno @ '','' @ show_int dev)"

definition description :: "string \<Rightarrow> string \<Rightarrow> string \<Rightarrow> string" where
  "description dstr card_name pcm_name = dstr @ '' ('' @ card_name @ '', '' @ pcm_name @ '')''"

text \<open>
  One pass through the inner \<open>while (1)\<close>, for the card numbered \<open>cno\<close> and named \<open>card_name\<close>;
  the state is the variable \<open>device\<close> and the history.  \<open>Exit\<close> is \<open>break\<close>.
\<close>

definition device_step :: "env \<Rightarrow> int \<Rightarrow> string \<Rightarrow> int \<times> history \<Rightarrow> (int \<times> history) flow" where
  "device_step e cno card_name s =
     (case s of (dev, h) \<Rightarrow>
        let h1 = h @ [Snd_ctl_pcm_next_device dev] in
        if ret e h1 \<noteq> 0 then Exit h1 else
        let dev1 = index_out e h1 in
        if dev1 < 0 then Exit h1 else
        let h2 = h1 @ [Snd_ctl_pcm_info dev1] in
        if ret e h2 \<noteq> 0 then Next (dev1, h2) else
        let dstr = device_str cno dev1
        in Next (dev1, h2 @ [Obs_property_list_add_string
                               (description dstr card_name (name_out e h2)) dstr]))"

partial_function (option) device_loop ::
  "env \<Rightarrow> int \<Rightarrow> string \<Rightarrow> int \<times> history \<Rightarrow> history option" where
  "device_loop e cno card_name s =
     (case device_step e cno card_name s of
        Next s1 \<Rightarrow> device_loop e cno card_name s1
      | Exit h1 \<Rightarrow> Some h1)"

text \<open>One pass through the outer \<open>while (1)\<close>; the state is the variable \<open>card\<close> and the history.\<close>

definition card_step :: "env \<Rightarrow> int \<times> history \<Rightarrow> (int \<times> history) flow option" where
  "card_step e s =
     (case s of (cno, h) \<Rightarrow>
        let h1 = h @ [Snd_card_next cno] in
        if ret e h1 \<noteq> 0 then Some (Exit h1) else
        let cno1 = index_out e h1 in
        if cno1 < 0 then Some (Exit h1) else
        let h2 = h1 @ [Snd_ctl_open (card_str cno1)] in
        if ret e h2 \<noteq> 0 then Some (Next (cno1, h2)) else
        let h3 = h2 @ [Snd_ctl_card_info] in
        if ret e h3 \<noteq> 0 then Some (Next (cno1, h3 @ [Snd_ctl_close])) else
        (case device_loop e cno1 (name_out e h3) (- 1, h3) of
           None \<Rightarrow> None
         | Some h4 \<Rightarrow> Some (Next (cno1, h4 @ [Snd_ctl_close]))))"

partial_function (option) card_loop :: "env \<Rightarrow> int \<times> history \<Rightarrow> history option" where
  "card_loop e s =
     (case card_step e s of
        None \<Rightarrow> None
      | Some (Next s1) \<Rightarrow> card_loop e s1
      | Some (Exit h1) \<Rightarrow> Some h1)"

definition alsa_device_list :: "env \<Rightarrow> history \<Rightarrow> history option" where
  "alsa_device_list e h =
     card_loop e (- 1, h @ [Obs_property_list_clear,
                            Obs_property_list_add_string ''Default Audio Device'' ''default''])"

section \<open>Notation for histories, and sample sessions and environments\<close>

text \<open>
  \<open>resume_attempts k\<close> is the history of \<open>k\<close> refused attempts to resume: each is a call of
  \<open>snd_pcm_resume\<close> followed by \<open>sleep(1)\<close>.
\<close>

definition resume_attempts :: "nat \<Rightarrow> history" where
  "resume_attempts k = concat (replicate k [Snd_pcm_resume, Sleep 1])"

text \<open>\<open>delivered h\<close> lists, in order, the buffers handed to \<open>obs_source_output_audio\<close> in \<open>h\<close>.\<close>

fun delivered :: "history \<Rightarrow> obs_source_audio list" where
  "delivered [] = []"
| "delivered (Obs_source_output_audio a # h) = a # delivered h"
| "delivered (c # h) = delivered h"

text \<open>
  \<open>stamped e rate pre new\<close> checks every delivery among the calls \<open>new\<close> made after the
  history \<open>pre\<close>: the two calls before it are \<open>snd_pcm_delay\<close> and \<open>get_audio_sample_time\<close>,
  the latter with the sample rate \<open>rate\<close> and, unless the delay query failed, with the
  delivered frame count plus the reported delay; the buffer carries the timestamp that call
  returned and declares the rate \<open>rate\<close>.  \<open>reached\<close> is the history a loop ended with.
\<close>

definition stamp_ok :: "env \<Rightarrow> c_unsigned \<Rightarrow> history \<Rightarrow> call \<Rightarrow> bool" where
  "stamp_ok e rate pre c =
     (case c of
        Obs_source_output_audio a \<Rightarrow>
          2 \<le> length pre \<and> last (butlast pre) = Snd_pcm_delay \<and>
          samples_per_sec a = rate \<and> timestamp a = time_out e pre \<and>
          (case last pre of
             Get_audio_sample_time n r \<Rightarrow>
               r = rate \<and> (ret e (butlast pre) < 0 \<or> n = frames a + sframes_out e (butlast pre))
           | _ \<Rightarrow> False)
      | _ \<Rightarrow> True)"

fun stamped :: "env \<Rightarrow> c_unsigned \<Rightarrow> history \<Rightarrow> history \<Rightarrow> bool" where
  "stamped e rate pre [] = True"
| "stamped e rate pre (c # rest) = (stamp_ok e rate pre c \<and> stamped e rate (pre @ [c]) rest)"

fun reached :: "history flow \<Rightarrow> history" where
  "reached (Next h) = h"
| "reached (Exit h) = h"

text \<open>
  The environments below are the concrete hardware behaviours at which the theorems are
  evaluated.  In \<open>quiet\<close> every call returns 0, the device is running and no card exists;
  the others change one answer each.  In \<open>create_fails_env\<close> the thread cannot be created
  (\<open>pthread_create\<close> answers \<open>EAGAIN\<close>) and the failed call leaves a handle behind.  \<open>session0\<close> is a stopped session as \<open>alsa_create\<close>
  sets it up for the default device.
\<close>

definition quiet :: env where
  "quiet = \<lparr>ret = (\<lambda>h. 0), state_out = (\<lambda>h. SND_PCM_STATE_RUNNING), sframes_out = (\<lambda>h. 0),
            uframes_out = (\<lambda>h. 0), unsigned_out = (\<lambda>h. 0), index_out = (\<lambda>h. - 1),
            handle_out = (\<lambda>h. 1), name_out = (\<lambda>h. []), layout_out = (\<lambda>h. 0),
            time_out = (\<lambda>h. 0), thread_left = (\<lambda>h. None)\<rparr>"

definition session0 :: alsa_data where
  "session0 = \<lparr>source = 1, thread = None, event = None, num_pollfds = 0, device = ''default'',
        pcm = None, format = SND_PCM_FORMAT_S16_LE, channels = 2, sample_rate = 48000,
        buffer_size = 0, period_size = 0\<rparr>"

definition suspended_env :: env where
  "suspended_env = quiet\<lparr>state_out := (\<lambda>h. SND_PCM_STATE_SUSPENDED),
     ret := (\<lambda>h. if last h = Snd_pcm_resume \<and> length h < 6 then - 11 else 0)\<rparr>"

definition resumed_env :: env where
  "resumed_env = quiet\<lparr>state_out := (\<lambda>h. SND_PCM_STATE_SUSPENDED)\<rparr>"

definition xrun_env :: env where
  "xrun_env = quiet\<lparr>state_out := (\<lambda>h. SND_PCM_STATE_XRUN)\<rparr>"

definition apply_fails_env :: env where
  "apply_fails_env = quiet\<lparr>ret := (\<lambda>h. if last h = Snd_pcm_hw_params then - 22 else 0),
      unsigned_out := (\<lambda>h. if last h = Snd_pcm_hw_params_get_buffer_time_max then 2000000
                            else if last h = Snd_pcm_hw_params_get_period_time_min then 1000
                            else 44100),
      uframes_out := (\<lambda>h. if last h = Snd_pcm_hw_params_get_period_size then 1024 else 4096)\<rparr>"

definition open_fails_env :: env where
  "open_fails_env = quiet\<lparr>ret := (\<lambda>h. if last h = Snd_pcm_open ''default'' then - 2 else 0)\<rparr>"

definition create_fails_env :: env where
  "create_fails_env = quiet\<lparr>ret := (\<lambda>h. if last h = Pthread_create then 11 else 0),
      thread_left := (\<lambda>h. Some 7)\<rparr>"

definition any_fails_env :: env where
  "any_fails_env = quiet\<lparr>ret := (\<lambda>h. if last h = Snd_pcm_hw_params_any then - 22 else 0)\<rparr>"

definition session1 :: alsa_data where
  "session1 = session0\<lparr>thread := Some 2, event := Some 3, pcm := Some 1, period_size := 4,
                        buffer_size := 16\<rparr>"

definition audio0 :: obs_source_audio where
  "audio0 = \<lparr>speakers = 0, samples_per_sec = 48000, audio_fmt = AUDIO_FORMAT_16BIT_PLANAR,
             frames = 0, timestamp = 0\<rparr>"

fun is_read :: "call \<Rightarrow> bool" where
  "is_read (Snd_pcm_mmap_readn c) = True"
| "is_read _ = False"

text \<open>
  The capture environments: the stop event is found unsignalled at the first
  \<open>os_event_try\<close> and signalled from the second on, so the thread runs one period; a read
  returns as many frames as it was asked for, and the device reports a delay of 3 frames.
  In \<open>retry_env\<close> and \<open>read_fault_env\<close> the first read of the run answers \<open>-EAGAIN\<close> (-11),
  respectively \<open>-EPIPE\<close> (-32); in \<open>wait_fault_env\<close> the wait answers \<open>-EPIPE\<close>.  The \<open>dead\<close>
  variants report a disconnected device, which recovery does not handle.
\<close>

definition capture_env :: env where
  "capture_env = quiet\<lparr>
     ret := (\<lambda>h. case last h of
                    Os_event_try \<Rightarrow> if Os_event_try \<in> set (butlast h) then 0 else 11
                  | Snd_pcm_wait t \<Rightarrow> 1
                  | _ \<Rightarrow> 0),
     sframes_out := (\<lambda>h. case last h of
                    Snd_pcm_mmap_readn c \<Rightarrow> c
                  | Snd_pcm_delay \<Rightarrow> 3
                  | _ \<Rightarrow> 0),
     time_out := (\<lambda>h. case last h of Get_audio_sample_time n r \<Rightarrow> 1000000 - n | _ \<Rightarrow> 0)\<rparr>"

definition retry_env :: env where
  "retry_env = capture_env\<lparr>
     sframes_out := (\<lambda>h. case last h of
                    Snd_pcm_mmap_readn c \<Rightarrow> if list_ex is_read (butlast h) then c else - 11
                  | Snd_pcm_delay \<Rightarrow> 3
                  | _ \<Rightarrow> 0)\<rparr>"

definition wait_fault_env :: env where
  "wait_fault_env = capture_env\<lparr>
     ret := (\<lambda>h. case last h of
                    Os_event_try \<Rightarrow> if Os_event_try \<in> set (butlast h) then 0 else 11
                  | Snd_pcm_wait t \<Rightarrow> - 32
                  | _ \<Rightarrow> 0),
     state_out := (\<lambda>h. SND_PCM_STATE_XRUN)\<rparr>"

definition read_fault_env :: env where
  "read_fault_env = capture_env\<lparr>
     sframes_out := (\<lambda>h. case last h of
                    Snd_pcm_mmap_readn c \<Rightarrow> if list_ex is_read (butlast h) then c else - 32
                  | Snd_pcm_delay \<Rightarrow> 3
                  | _ \<Rightarrow> 0),
     state_out := (\<lambda>h. SND_PCM_STATE_XRUN)\<rparr>"

definition wait_dead_env :: env where
  "wait_dead_env = wait_fault_env\<lparr>state_out := (\<lambda>h. SND_PCM_STATE_DISCONNECTED)\<rparr>"

definition read_dead_env :: env where
  "read_dead_env = read_fault_env\<lparr>state_out := (\<lambda>h. SND_PCM_STATE_DISCONNECTED)\<rparr>"

text \<open>\<open>entries h\<close> lists, in order, the (description, value) pairs added to the property list in \<open>h\<close>.\<close>

fun entries :: "history \<Rightarrow> (string \<times> string) list" where
  "entries [] = []"
| "entries (Obs_property_list_add_string dsc v # h) = (dsc, v) # entries h"
| "entries (c # h) = entries h"

text \<open>
  A machine with three cards, 0, 1 and 2, each with the devices 0 and 1.  Card 0 cannot be
  opened, card 1 opens but cannot be queried, and on card 2 the query for device 0 fails.
\<close>

definition enum_env :: env where
  "enum_env = quiet\<lparr>
     ret := (\<lambda>h. case last h of
                    Snd_ctl_open s \<Rightarrow> if s = ''hw:0'' then - 2 else 0
                  | Snd_ctl_card_info \<Rightarrow> if last (butlast h) = Snd_ctl_open ''hw:1'' then - 19 else 0
                  | Snd_ctl_pcm_info dv \<Rightarrow> if dv = 0 then - 2 else 0
                  | _ \<Rightarrow> 0),
     index_out := (\<lambda>h. case last h of
                    Snd_card_next c \<Rightarrow> if c < 2 then c + 1 else - 1
                  | Snd_ctl_pcm_next_device dv \<Rightarrow> if dv < 1 then dv + 1 else - 1
                  | _ \<Rightarrow> - 1),
     name_out := (\<lambda>h. case last h of
                    Snd_ctl_card_info \<Rightarrow> ''USB Audio''
                  | Snd_ctl_pcm_info dv \<Rightarrow> ''USB Audio #1''
                  | _ \<Rightarrow> [])\<rparr>"

section \<open>Fault recovery: \<open>alsa_handle_xrun\<close>\<close>

lemma resume_attempts_Suc:
  "resume_attempts (Suc k) = [Snd_pcm_resume, Sleep 1] @ resume_attempts k"
  by (simp add: resume_attempts_def)

lemma length_resume_attempts: "length (resume_attempts k) = 2 * k"
  by (induction k) (simp_all add: resume_attempts_def)

lemma resume_loop_retries:
  assumes "\<forall>i<k. ret e (h @ resume_attempts i @ [Snd_pcm_resume]) = - EAGAIN"
    and "ret e (h @ resume_attempts k @ [Snd_pcm_resume]) \<noteq> - EAGAIN"
  shows "resume_loop e h =
         Some (ret e (h @ resume_attempts k @ [Snd_pcm_resume]), h @ resume_attempts k @ [Snd_pcm_resume])"
  using assms
proof (induction k arbitrary: h)
  case 0
  then show ?case
    by (subst resume_loop.simps) (simp add: resume_attempts_def Let_def)
next
  case (Suc k)
  from Suc.prems(1) have first: "ret e (h @ [Snd_pcm_resume]) = - EAGAIN"
    by (auto simp: resume_attempts_def dest: spec [of _ 0])
  have rest: "\<forall>i<k. ret e ((h @ [Snd_pcm_resume, Sleep 1]) @ resume_attempts i @ [Snd_pcm_resume]) = - EAGAIN"
    using Suc.prems(1) by (auto simp: resume_attempts_Suc dest: spec [of _ "Suc i" for i])
  have fin: "ret e ((h @ [Snd_pcm_resume, Sleep 1]) @ resume_attempts k @ [Snd_pcm_resume]) \<noteq> - EAGAIN"
    using Suc.prems(2) by (simp add: resume_attempts_Suc)
  have "resume_loop e h = resume_loop e (h @ [Snd_pcm_resume, Sleep 1])"
    by (subst resume_loop.simps) (simp add: first Let_def)
  also have "\<dots> = Some (ret e ((h @ [Snd_pcm_resume, Sleep 1]) @ resume_attempts k @ [Snd_pcm_resume]),
                       (h @ [Snd_pcm_resume, Sleep 1]) @ resume_attempts k @ [Snd_pcm_resume])"
    by (rule Suc.IH [OF rest fin])
  finally show ?case by (simp add: resume_attempts_Suc)
qed

text \<open>
  Claim C3, as the code has it.  In state \<open>SUSPENDED\<close>, if the device refuses the first \<open>k\<close>
  attempts to resume with \<open>-EAGAIN\<close> and answers the next one with anything else, recovery
  makes exactly those \<open>k + 1\<close> calls of \<open>snd_pcm_resume\<close>, sleeping after each refused one;
  if the last answer is a success it returns 0 and does not call \<open>snd_pcm_prepare\<close>, and if
  it is an error it goes on to \<open>snd_pcm_prepare\<close> and returns 0 or the error of that call.
  In state \<open>XRUN\<close> it calls \<open>snd_pcm_prepare\<close> only.  In every other state it returns \<open>-1\<close>
  and calls neither.
\<close>

theorem alsa_handle_xrun_classification:
  "(state_out e (h @ [Snd_pcm_state]) = SND_PCM_STATE_SUSPENDED \<and>
    (\<forall>i<k. ret e ((h @ [Snd_pcm_state]) @ resume_attempts i @ [Snd_pcm_resume]) = - EAGAIN) \<and>
    ret e ((h @ [Snd_pcm_state]) @ resume_attempts k @ [Snd_pcm_resume]) \<noteq> - EAGAIN \<longrightarrow>
    alsa_handle_xrun e h =
      (let h1 = (h @ [Snd_pcm_state]) @ resume_attempts k @ [Snd_pcm_resume];
           h2 = h1 @ [Snd_pcm_prepare]
       in if ret e h1 \<ge> 0 then Some (0, h1)
          else Some (if ret e h2 < 0 then ret e h2 else 0, h2))) \<and>
   (state_out e (h @ [Snd_pcm_state]) = SND_PCM_STATE_XRUN \<longrightarrow>
    alsa_handle_xrun e h =
      (let h2 = h @ [Snd_pcm_state, Snd_pcm_prepare]
       in Some (if ret e h2 < 0 then ret e h2 else 0, h2))) \<and>
   (state_out e (h @ [Snd_pcm_state]) \<noteq> SND_PCM_STATE_SUSPENDED \<and>
    state_out e (h @ [Snd_pcm_state]) \<noteq> SND_PCM_STATE_XRUN \<longrightarrow>
    alsa_handle_xrun e h = Some (- 1, h @ [Snd_pcm_state]))"
proof (intro conjI impI)
  assume a: "state_out e (h @ [Snd_pcm_state]) = SND_PCM_STATE_SUSPENDED \<and>
    (\<forall>i<k. ret e ((h @ [Snd_pcm_state]) @ resume_attempts i @ [Snd_pcm_resume]) = - EAGAIN) \<and>
    ret e ((h @ [Snd_pcm_state]) @ resume_attempts k @ [Snd_pcm_resume]) \<noteq> - EAGAIN"
  then have "resume_loop e (h @ [Snd_pcm_state]) =
      Some (ret e ((h @ [Snd_pcm_state]) @ resume_attempts k @ [Snd_pcm_resume]),
            (h @ [Snd_pcm_state]) @ resume_attempts k @ [Snd_pcm_resume])"
    by (intro resume_loop_retries) simp_all
  with a show "alsa_handle_xrun e h =
      (let h1 = (h @ [Snd_pcm_state]) @ resume_attempts k @ [Snd_pcm_resume];
           h2 = h1 @ [Snd_pcm_prepare]
       in if ret e h1 \<ge> 0 then Some (0, h1)
          else Some (if ret e h2 < 0 then ret e h2 else 0, h2))"
    by (simp add: alsa_handle_xrun_def xrun_case_def Let_def)
next
  assume "state_out e (h @ [Snd_pcm_state]) = SND_PCM_STATE_XRUN"
  then show "alsa_handle_xrun e h =
      (let h2 = h @ [Snd_pcm_state, Snd_pcm_prepare]
       in Some (if ret e h2 < 0 then ret e h2 else 0, h2))"
    by (simp add: alsa_handle_xrun_def xrun_case_def Let_def)
next
  assume "state_out e (h @ [Snd_pcm_state]) \<noteq> SND_PCM_STATE_SUSPENDED \<and>
    state_out e (h @ [Snd_pcm_state]) \<noteq> SND_PCM_STATE_XRUN"
  then show "alsa_handle_xrun e h = Some (- 1, h @ [Snd_pcm_state])"
    by (cases "state_out e (h @ [Snd_pcm_state])") (simp_all add: alsa_handle_xrun_def)
qed

theorem alsa_handle_xrun_classification_witness:
  "(state_out suspended_env ([] @ [Snd_pcm_state]) = SND_PCM_STATE_SUSPENDED \<and>
    ret suspended_env (([] @ [Snd_pcm_state]) @ resume_attempts 0 @ [Snd_pcm_resume]) = - EAGAIN \<and>
    ret suspended_env (([] @ [Snd_pcm_state]) @ resume_attempts 1 @ [Snd_pcm_resume]) = - EAGAIN \<and>
    ret suspended_env (([] @ [Snd_pcm_state]) @ resume_attempts 2 @ [Snd_pcm_resume]) \<noteq> - EAGAIN) \<and>
   alsa_handle_xrun suspended_env [] =
     Some (0, [Snd_pcm_state, Snd_pcm_resume, Sleep 1, Snd_pcm_resume, Sleep 1, Snd_pcm_resume]) \<and>
   state_out xrun_env ([] @ [Snd_pcm_state]) = SND_PCM_STATE_XRUN \<and>
   alsa_handle_xrun xrun_env [] = Some (0, [Snd_pcm_state, Snd_pcm_prepare]) \<and>
   state_out quiet ([] @ [Snd_pcm_state]) \<noteq> SND_PCM_STATE_SUSPENDED \<and>
   state_out quiet ([] @ [Snd_pcm_state]) \<noteq> SND_PCM_STATE_XRUN \<and>
   alsa_handle_xrun quiet [] = Some (- 1, [Snd_pcm_state])"
proof -
  have hyp: "state_out suspended_env ([] @ [Snd_pcm_state]) = SND_PCM_STATE_SUSPENDED \<and>
    (\<forall>i<2. ret suspended_env (([] @ [Snd_pcm_state]) @ resume_attempts i @ [Snd_pcm_resume]) = - EAGAIN) \<and>
    ret suspended_env (([] @ [Snd_pcm_state]) @ resume_attempts 2 @ [Snd_pcm_resume]) \<noteq> - EAGAIN"
    by (simp add: suspended_env_def quiet_def EAGAIN_def length_resume_attempts)
  have two: "resume_attempts 2 = [Snd_pcm_resume, Sleep 1, Snd_pcm_resume, Sleep 1]"
    by (simp add: resume_attempts_def numeral_2_eq_2)
  have s: "alsa_handle_xrun suspended_env [] =
     Some (0, [Snd_pcm_state, Snd_pcm_resume, Sleep 1, Snd_pcm_resume, Sleep 1, Snd_pcm_resume])"
    using alsa_handle_xrun_classification [of suspended_env "[]" 2] hyp
    by (simp add: two Let_def suspended_env_def quiet_def)
  have x: "state_out xrun_env ([] @ [Snd_pcm_state]) = SND_PCM_STATE_XRUN"
    by (simp add: xrun_env_def quiet_def)
  have x2: "alsa_handle_xrun xrun_env [] = Some (0, [Snd_pcm_state, Snd_pcm_prepare])"
    using alsa_handle_xrun_classification [of xrun_env "[]" 0] x
    by (simp add: Let_def xrun_env_def quiet_def)
  have q: "state_out quiet ([] @ [Snd_pcm_state]) \<noteq> SND_PCM_STATE_SUSPENDED \<and>
   state_out quiet ([] @ [Snd_pcm_state]) \<noteq> SND_PCM_STATE_XRUN"
    by (simp add: quiet_def)
  have q2: "alsa_handle_xrun quiet [] = Some (- 1, [Snd_pcm_state])"
    using alsa_handle_xrun_classification [of quiet "[]" 0] q by simp
  show ?thesis using hyp s x x2 q q2 by simp
qed

text \<open>
  A suspended device whose first \<open>snd_pcm_resume\<close> succeeds: recovery returns 0 after that
  one call, and \<open>snd_pcm_prepare\<close> is not called.
\<close>

theorem resume_success_skips_prepare_counterexample:
  "state_out resumed_env [Snd_pcm_state] = SND_PCM_STATE_SUSPENDED \<and>
   ret resumed_env [Snd_pcm_state, Snd_pcm_resume] = 0 \<and>
   alsa_handle_xrun resumed_env [] = Some (0, [Snd_pcm_state, Snd_pcm_resume]) \<and>
   Snd_pcm_prepare \<notin> set [Snd_pcm_state, Snd_pcm_resume]"
  by (simp add: alsa_handle_xrun_def resumed_env_def quiet_def resume_loop.simps EAGAIN_def Let_def)

section \<open>Stopping and destroying a session\<close>

lemma alsa_terminate_stops:
  "thread (fst (alsa_terminate d h)) = None \<and> pcm (fst (alsa_terminate d h)) = None"
  by (simp add: alsa_terminate_def)

text \<open>
  Claim C8.  On a session whose thread handle and device handle are both unset,
  \<open>alsa_terminate\<close> makes no call (no signal, join, destroy or close) and leaves the session
  as it is; and whatever the session, a second \<open>alsa_terminate\<close> right after the first finds
  both handles unset and does nothing.
\<close>

theorem alsa_terminate_idempotent:
  "(thread d = None \<and> pcm d = None \<longrightarrow> alsa_terminate d h = (d, h)) \<and>
   (case alsa_terminate d h of (d1, h1) \<Rightarrow>
      thread d1 = None \<and> pcm d1 = None \<and> alsa_terminate d1 h1 = (d1, h1))"
  by (simp add: alsa_terminate_def)

theorem alsa_terminate_idempotent_witness:
  "thread session0 = None \<and> pcm session0 = None \<and> alsa_terminate session0 [] = (session0, [])"
  using alsa_terminate_idempotent [of session0 "[]"] by (simp add: session0_def)

text \<open>
  Claim C10.  \<open>alsa_destroy\<close> on the null pointer returns at once: the history is unchanged,
  so nothing is signalled, joined, closed or freed.
\<close>

theorem alsa_destroy_null: "alsa_destroy None h = (None, h)"
  by (simp add: alsa_destroy_def)

theorem alsa_destroy_null_witness: "alsa_destroy None [] = (None, [])"
  using alsa_destroy_null [of "[]"] by simp

text \<open>On a session, by contrast, it terminates and then frees the device string and the session.\<close>

lemma alsa_destroy_session:
  "alsa_destroy (Some d) h = (None, snd (alsa_terminate d h) @ [Bfree_device, Bfree_data])"
  by (simp add: alsa_destroy_def split: prod.splits)

section \<open>Format negotiation: \<open>alsa_set_hwparams\<close>\<close>

lemma OBS_MIN_ceiling: "OBS_MIN x MAX_BUFFER_TIME_US \<le> 500000"
  by (auto simp: OBS_MIN_def MAX_BUFFER_TIME_US_def)

lemma OBS_MAX_floor: "y \<le> OBS_MAX x y"
  by (auto simp: OBS_MAX_def)

lemma alsa_set_hwparams_handles:
  "alsa_set_hwparams e d h = (r, d', h') \<Longrightarrow> pcm d' = pcm d \<and> thread d' = thread d"
  by (auto simp: alsa_set_hwparams_def Let_def split: if_splits)

text \<open>
  A device that accepts every parameter, reports a longest buffer time of 2 s and a shortest
  period time of 1 ms, and then refuses the parameter set as a whole (\<open>snd_pcm_hw_params\<close>
  answers \<open>-EINVAL\<close>, -22).
\<close>

lemma apply_fails_run:
  "alsa_set_hwparams apply_fails_env session0 [] =
     (0, session0\<lparr>sample_rate := 44100, period_size := 1024, buffer_size := 4096\<rparr>,
      [Snd_pcm_hw_params_any, Snd_pcm_hw_params_set_access,
       Snd_pcm_hw_params_set_format SND_PCM_FORMAT_S16_LE,
       Snd_pcm_hw_params_set_channels 2,
       Snd_pcm_hw_params_set_rate_near 48000,
       Snd_pcm_hw_params_get_buffer_time_max,
       Snd_pcm_hw_params_get_period_time_min,
       Snd_pcm_hw_params_set_buffer_time_near 500000,
       Snd_pcm_hw_params_set_period_time_near 125000,
       Snd_pcm_hw_params_get_period_size, Snd_pcm_hw_params_get_buffer_size,
       Snd_pcm_hw_params])"
  by (simp add: alsa_set_hwparams_def apply_fails_env_def quiet_def session0_def Let_def
      OBS_MIN_def OBS_MAX_def MAX_BUFFER_TIME_US_def UINT_MAX_def)

text \<open>
  Claim C5.  Whatever the hardware reports (also when a query for its limits fails), the
  buffer time that \<open>alsa_set_hwparams\<close> asks the device for is at most 500000 microseconds,
  and the period time it asks for is at least a quarter of that buffer time.
\<close>

theorem hwparams_time_bounds:
  assumes "alsa_set_hwparams e d h = (r, d', h')"
  shows "\<exists>new. h' = h @ new \<and>
           (\<forall>bt. Snd_pcm_hw_params_set_buffer_time_near bt \<in> set new \<longrightarrow> bt \<le> 500000) \<and>
           (\<forall>pt. Snd_pcm_hw_params_set_period_time_near pt \<in> set new \<longrightarrow>
                 (\<exists>bt. Snd_pcm_hw_params_set_buffer_time_near bt \<in> set new \<and>
                       bt \<le> 500000 \<and> bt div 4 \<le> pt))"
  using assms OBS_MIN_ceiling OBS_MAX_floor
  by (auto simp: alsa_set_hwparams_def Let_def split: if_splits)

theorem hwparams_time_bounds_witness:
  "alsa_set_hwparams apply_fails_env session0 [] =
     (0, session0\<lparr>sample_rate := 44100, period_size := 1024, buffer_size := 4096\<rparr>,
      [Snd_pcm_hw_params_any, Snd_pcm_hw_params_set_access,
       Snd_pcm_hw_params_set_format SND_PCM_FORMAT_S16_LE,
       Snd_pcm_hw_params_set_channels 2,
       Snd_pcm_hw_params_set_rate_near 48000,
       Snd_pcm_hw_params_get_buffer_time_max,
       Snd_pcm_hw_params_get_period_time_min,
       Snd_pcm_hw_params_set_buffer_time_near 500000,
       Snd_pcm_hw_params_set_period_time_near 125000,
       Snd_pcm_hw_params_get_period_size, Snd_pcm_hw_params_get_buffer_size,
       Snd_pcm_hw_params]) \<and>
   (500000 :: c_unsigned) \<le> 500000 \<and> (500000 :: c_unsigned) div 4 \<le> 125000"
  using hwparams_time_bounds [OF apply_fails_run] apply_fails_run by simp

text \<open>
  Claim C2 at the device above: the last step fails with -22, yet \<open>alsa_set_hwparams\<close>
  returns 0, having made its twelve calls in the order of the source, and \<open>alsa_init\<close>
  reports success.
\<close>

theorem hw_params_failure_unreported:
  "ret apply_fails_env
     [Snd_pcm_hw_params_any, Snd_pcm_hw_params_set_access,
      Snd_pcm_hw_params_set_format SND_PCM_FORMAT_S16_LE,
      Snd_pcm_hw_params_set_channels 2,
      Snd_pcm_hw_params_set_rate_near 48000,
      Snd_pcm_hw_params_get_buffer_time_max,
      Snd_pcm_hw_params_get_period_time_min,
      Snd_pcm_hw_params_set_buffer_time_near 500000,
      Snd_pcm_hw_params_set_period_time_near 125000,
      Snd_pcm_hw_params_get_period_size, Snd_pcm_hw_params_get_buffer_size,
      Snd_pcm_hw_params] = - 22 \<and>
   fst (alsa_set_hwparams apply_fails_env session0 []) = 0 \<and>
   fst (alsa_init apply_fails_env session0 []) = True"
  by (simp add: alsa_init_def alsa_set_hwparams_def apply_fails_env_def quiet_def session0_def Let_def
      OBS_MIN_def OBS_MAX_def MAX_BUFFER_TIME_US_def UINT_MAX_def)

text \<open>
  In general: once the last step is reached the result is 0 whatever that step returns,
  whereas a negotiation that stops earlier stops at one of the seven checked calls and
  returns the negative result of that call.
\<close>

lemma alsa_set_hwparams_last_step_unchecked:
  "alsa_set_hwparams e d h = (r, d', h') \<Longrightarrow> last h' = Snd_pcm_hw_params \<Longrightarrow> r = 0"
  by (auto simp: alsa_set_hwparams_def Let_def split: if_splits)

lemma alsa_set_hwparams_earlier_steps_checked:
  "alsa_set_hwparams e d h = (r, d', h') \<Longrightarrow> last h' \<noteq> Snd_pcm_hw_params \<Longrightarrow>
   r < 0 \<and> r = ret e h' \<and>
   last h' \<in> {Snd_pcm_hw_params_any, Snd_pcm_hw_params_set_access,
               Snd_pcm_hw_params_set_format (format d), Snd_pcm_hw_params_set_channels (channels d),
               Snd_pcm_hw_params_set_rate_near (sample_rate d)} \<union>
              range Snd_pcm_hw_params_set_buffer_time_near \<union>
              range Snd_pcm_hw_params_set_period_time_near"
  by (auto simp: alsa_set_hwparams_def Let_def split: if_splits)

section \<open>Starting a session: \<open>alsa_init\<close>\<close>

lemma alsa_set_hwparams_last_call:
  "alsa_set_hwparams e d h = (r, d', h') \<Longrightarrow> last h' \<noteq> Pthread_create \<and> last h' \<noteq> Os_event_init"
  by (auto simp: alsa_set_hwparams_def Let_def split: if_splits)

text \<open>
  Claim C1, as the code has it.  Let both handles be unset when \<open>alsa_init\<close> is entered
  (\<open>alsa_update\<close> calls \<open>alsa_terminate\<close> first), and let \<open>alsa_init\<close> report failure.  The
  device handle is unset if it was the open that failed and otherwise still holds the open
  device.  If the failure was not that of \<open>pthread_create\<close> (the history does not end with
  that call), the thread handle is unset, and the next \<open>alsa_terminate\<close> closes the device if
  it is open, makes no other call and leaves both handles unset.  If it was
  \<open>pthread_create\<close> that failed, the thread handle holds what the failed call left in it.
\<close>

theorem alsa_init_failure_state:
  assumes "alsa_init e d h = (False, d', h')" and "thread d = None" and "pcm d = None"
  shows "(if ret e (h @ [Snd_pcm_open (device d)]) < 0 then pcm d' = None
          else pcm d' = Some (handle_out e (h @ [Snd_pcm_open (device d)]))) \<and>
         (last h' \<noteq> Pthread_create \<longrightarrow>
            thread d' = None \<and>
            alsa_terminate d' h' =
              (if pcm d' = None then (d', h') else (d'\<lparr>pcm := None\<rparr>, h' @ [Snd_pcm_close]))) \<and>
         (last h' = Pthread_create \<longrightarrow> thread d' = thread_left e h')"
proof (cases "ret e (h @ [Snd_pcm_open (device d)]) < 0")
  case True
  with assms(1) have "d' = d" "h' = h @ [Snd_pcm_open (device d)]"
    by (auto simp: alsa_init_def Let_def)
  with True assms(2,3) show ?thesis
    by (simp add: alsa_terminate_def)
next
  case False
  define h1 where "h1 = h @ [Snd_pcm_open (device d)]"
  define d1 where "d1 = d\<lparr>pcm := Some (handle_out e h1)\<rparr>"
  obtain r d2 h2 where hw: "alsa_set_hwparams e d1 h1 = (r, d2, h2)"
    by (cases "alsa_set_hwparams e d1 h1") auto
  from alsa_set_hwparams_handles [OF hw] assms(2)
  have keep: "pcm d2 = Some (handle_out e h1)" "thread d2 = None"
    by (simp_all add: d1_def)
  from alsa_set_hwparams_last_call [OF hw]
  have lst: "last h2 \<noteq> Pthread_create" by simp
  have init: "alsa_init e d h =
      (if r < 0 then (False, d2, h2)
       else if ret e (h2 @ [Os_event_init]) \<noteq> 0 then (False, d2, h2 @ [Os_event_init])
       else if ret e (h2 @ [Os_event_init, Pthread_create]) \<noteq> 0
         then (False, d2\<lparr>event := Some (handle_out e (h2 @ [Os_event_init])),
                         thread := thread_left e (h2 @ [Os_event_init, Pthread_create])\<rparr>,
               h2 @ [Os_event_init, Pthread_create])
         else (True, d2\<lparr>event := Some (handle_out e (h2 @ [Os_event_init])),
                        thread := Some (handle_out e (h2 @ [Os_event_init, Pthread_create]))\<rparr>,
               h2 @ [Os_event_init, Pthread_create]))"
    using False hw [unfolded d1_def h1_def] by (simp add: alsa_init_def Let_def)
  from assms(1) init
  have fail: "(if r < 0 then (False, d2, h2)
       else if ret e (h2 @ [Os_event_init]) \<noteq> 0 then (False, d2, h2 @ [Os_event_init])
       else if ret e (h2 @ [Os_event_init, Pthread_create]) \<noteq> 0
         then (False, d2\<lparr>event := Some (handle_out e (h2 @ [Os_event_init])),
                         thread := thread_left e (h2 @ [Os_event_init, Pthread_create])\<rparr>,
               h2 @ [Os_event_init, Pthread_create])
         else (True, d2\<lparr>event := Some (handle_out e (h2 @ [Os_event_init])),
                        thread := Some (handle_out e (h2 @ [Os_event_init, Pthread_create]))\<rparr>,
               h2 @ [Os_event_init, Pthread_create])) = (False, d', h')"
    by simp
  consider (params) "r < 0"
    | (ev) "\<not> r < 0" "ret e (h2 @ [Os_event_init]) \<noteq> 0"
    | (cr) "\<not> r < 0" "ret e (h2 @ [Os_event_init]) = 0"
    by blast
  then show ?thesis
  proof cases
    case params
    with fail have "d2 = d'" "h2 = h'"
      by simp_all
    with keep lst
    have "pcm d' = Some (handle_out e h1)" "thread d' = None" "last h' \<noteq> Pthread_create"
      by auto
    with False show ?thesis
      by (simp add: alsa_terminate_def h1_def)
  next
    case ev
    with fail have "d2 = d'" "h2 @ [Os_event_init] = h'"
      by simp_all
    with keep
    have "pcm d' = Some (handle_out e h1)" "thread d' = None" "last h' \<noteq> Pthread_create"
      by auto
    with False show ?thesis
      by (simp add: alsa_terminate_def h1_def)
  next
    case cr
    with fail
    have "d2\<lparr>event := Some (handle_out e (h2 @ [Os_event_init])),
             thread := thread_left e (h2 @ [Os_event_init, Pthread_create])\<rparr> = d'"
      and "h2 @ [Os_event_init, Pthread_create] = h'"
      by (auto split: if_splits)
    with keep
    have "pcm d' = Some (handle_out e h1)" "thread d' = thread_left e h'" "last h' = Pthread_create"
      by auto
    with False show ?thesis
      by (simp add: h1_def)
  qed
qed

lemma any_fails_run:
  "alsa_init any_fails_env session0 [] =
     (False, session0\<lparr>pcm := Some 1\<rparr>, [Snd_pcm_open ''default'', Snd_pcm_hw_params_any])"
  by (simp add: alsa_init_def alsa_set_hwparams_def any_fails_env_def quiet_def session0_def Let_def)

lemma open_fails_run:
  "alsa_init open_fails_env session0 [] = (False, session0, [Snd_pcm_open ''default''])"
  by (simp add: alsa_init_def open_fails_env_def quiet_def session0_def Let_def)

text \<open>
  A machine on which the device opens and takes its parameters but no thread can be
  created, the failed \<open>pthread_create\<close> leaving a handle in \<open>data->thread\<close>.
\<close>

lemma create_fails_run:
  "alsa_init create_fails_env session0 [] =
     (False,
      session0\<lparr>pcm := Some 1, sample_rate := 0, event := Some 1, thread := Some 7\<rparr>,
      [Snd_pcm_open ''default'', Snd_pcm_hw_params_any, Snd_pcm_hw_params_set_access,
       Snd_pcm_hw_params_set_format SND_PCM_FORMAT_S16_LE,
       Snd_pcm_hw_params_set_channels 2,
       Snd_pcm_hw_params_set_rate_near 48000,
       Snd_pcm_hw_params_get_buffer_time_max,
       Snd_pcm_hw_params_get_period_time_min,
       Snd_pcm_hw_params_set_buffer_time_near 0,
       Snd_pcm_hw_params_set_period_time_near 0,
       Snd_pcm_hw_params_get_period_size, Snd_pcm_hw_params_get_buffer_size,
       Snd_pcm_hw_params, Os_event_init, Pthread_create])"
  by (simp add: alsa_init_def alsa_set_hwparams_def create_fails_env_def quiet_def session0_def
      Let_def OBS_MIN_def OBS_MAX_def MAX_BUFFER_TIME_US_def UINT_MAX_def)

theorem alsa_init_failure_state_witness:
  "alsa_init open_fails_env session0 [] = (False, session0, [Snd_pcm_open ''default'']) \<and>
   thread session0 = None \<and> pcm session0 = None \<and>
   ret open_fails_env ([] @ [Snd_pcm_open (device session0)]) < 0 \<and>
   last [Snd_pcm_open ''default''] \<noteq> Pthread_create \<and>
   alsa_terminate session0 [Snd_pcm_open ''default''] = (session0, [Snd_pcm_open ''default'']) \<and>
   alsa_init any_fails_env session0 [] =
     (False, session0\<lparr>pcm := Some 1\<rparr>, [Snd_pcm_open ''default'', Snd_pcm_hw_params_any]) \<and>
   \<not> ret any_fails_env ([] @ [Snd_pcm_open (device session0)]) < 0 \<and>
   last [Snd_pcm_open ''default'', Snd_pcm_hw_params_any] \<noteq> Pthread_create \<and>
   thread (session0\<lparr>pcm := Some 1\<rparr>) = None \<and>
   pcm (session0\<lparr>pcm := Some 1\<rparr>) =
     Some (handle_out any_fails_env ([] @ [Snd_pcm_open (device session0)])) \<and>
   alsa_terminate (session0\<lparr>pcm := Some 1\<rparr>) [Snd_pcm_open ''default'', Snd_pcm_hw_params_any] =
     (session0, [Snd_pcm_open ''default'', Snd_pcm_hw_params_any, Snd_pcm_close]) \<and>
   fst (alsa_init create_fails_env session0 []) = False \<and>
   last (snd (snd (alsa_init create_fails_env session0 []))) = Pthread_create \<and>
   thread (fst (snd (alsa_init create_fails_env session0 []))) = Some 7 \<and>
   pcm (fst (snd (alsa_init create_fails_env session0 []))) = Some 1"
proof -
  have s0: "thread session0 = None" "pcm session0 = None"
    by (simp_all add: session0_def)
  have o: "ret open_fails_env ([] @ [Snd_pcm_open (device session0)]) < 0"
    by (simp add: open_fails_env_def quiet_def session0_def)
  have a: "\<not> ret any_fails_env ([] @ [Snd_pcm_open (device session0)]) < 0"
    by (simp add: any_fails_env_def quiet_def session0_def)
  have ot: "alsa_terminate session0 [Snd_pcm_open ''default''] =
      (session0, [Snd_pcm_open ''default''])"
    using alsa_init_failure_state [OF open_fails_run s0] o by simp
  have at: "thread (session0\<lparr>pcm := Some 1\<rparr>) = None \<and>
      pcm (session0\<lparr>pcm := Some 1\<rparr>) =
        Some (handle_out any_fails_env ([] @ [Snd_pcm_open (device session0)])) \<and>
      alsa_terminate (session0\<lparr>pcm := Some 1\<rparr>)
          [Snd_pcm_open ''default'', Snd_pcm_hw_params_any] =
        (session0, [Snd_pcm_open ''default'', Snd_pcm_hw_params_any, Snd_pcm_close])"
    using alsa_init_failure_state [OF any_fails_run s0] a
    by (simp add: session0_def any_fails_env_def quiet_def)
  have ct: "thread (session0\<lparr>pcm := Some 1, sample_rate := 0, event := Some 1,
                             thread := Some 7\<rparr>) = Some 7"
    using alsa_init_failure_state [OF create_fails_run s0]
    by (simp add: create_fails_env_def quiet_def)
  from s0 o a ot at ct open_fails_run any_fails_run create_fails_run show ?thesis
    by (simp add: any_fails_env_def quiet_def)
qed

text \<open>
  A device that opens but has no hardware parameters to offer: \<open>alsa_init\<close> reports failure
  with the device handle set and the thread handle unset.
\<close>

theorem alsa_init_leaves_device_open_counterexample:
  "thread session0 = None \<and> pcm session0 = None \<and>
   alsa_init any_fails_env session0 [] =
     (False, session0\<lparr>pcm := Some 1\<rparr>, [Snd_pcm_open ''default'', Snd_pcm_hw_params_any]) \<and>
   pcm (session0\<lparr>pcm := Some 1\<rparr>) = Some 1 \<and> thread (session0\<lparr>pcm := Some 1\<rparr>) = None"
  by (simp add: alsa_init_def alsa_set_hwparams_def any_fails_env_def quiet_def session0_def Let_def)

text \<open>\<open>alsa_update\<close>, the only caller, enters \<open>alsa_init\<close> with both handles unset.\<close>

lemma alsa_update_enters_init_stopped:
  "\<exists>d0 h0. thread d0 = None \<and> pcm d0 = None \<and>
     alsa_update e d pcm_name force_mono h = snd (alsa_init e d0 h0)"
proof -
  obtain d1 h1 where t: "alsa_terminate d h = (d1, h1)"
    by (cases "alsa_terminate d h")
  with alsa_terminate_stops [of d h] have "thread d1 = None \<and> pcm d1 = None"
    by simp
  then have "thread (d1\<lparr>device := pcm_name, channels := (if force_mono then 1 else 2)\<rparr>) = None \<and>
             pcm (d1\<lparr>device := pcm_name, channels := (if force_mono then 1 else 2)\<rparr>) = None"
    by simp
  moreover have "alsa_update e d pcm_name force_mono h =
      snd (alsa_init e (d1\<lparr>device := pcm_name, channels := (if force_mono then 1 else 2)\<rparr>)
             (h1 @ [Bfree_device]))"
    by (simp add: alsa_update_def t split: prod.splits)
  ultimately show ?thesis by blast
qed

section \<open>The capture loop: \<open>alsa_thread\<close>\<close>

text \<open>
  Recovery calls nothing but \<open>snd_pcm_state\<close>, \<open>snd_pcm_resume\<close>, \<open>sleep\<close> and
  \<open>snd_pcm_prepare\<close>; in particular it delivers no buffer.
\<close>

lemma delivered_append: "delivered (h @ h') = delivered h @ delivered h'"
  by (induction h rule: delivered.induct) simp_all

lemma resume_loop_calls:
  assumes "resume_loop e h = Some (r, h')"
  shows "\<exists>new. h' = h @ new \<and> set new \<subseteq> {Snd_pcm_resume, Sleep 1}"
proof -
  have "\<exists>new. snd (r, h') = h @ new \<and> set new \<subseteq> {Snd_pcm_resume, Sleep 1}"
  proof (rule resume_loop.raw_induct
      [where P = "\<lambda>e h y. \<exists>new. snd y = h @ new \<and> set new \<subseteq> {Snd_pcm_resume, Sleep 1}",
        OF _ assms])
    fix f :: "env \<Rightarrow> history \<Rightarrow> (c_int \<times> history) option" and e h y
    assume IH: "\<And>e h y. f e h = Some y \<Longrightarrow>
                 \<exists>new. snd y = h @ new \<and> set new \<subseteq> {Snd_pcm_resume, Sleep 1}"
      and body: "(let h1 = h @ [Snd_pcm_resume]; r = ret e h1
                  in if r = - EAGAIN then f e (h1 @ [Sleep 1]) else Some (r, h1)) = Some y"
    show "\<exists>new. snd y = h @ new \<and> set new \<subseteq> {Snd_pcm_resume, Sleep 1}"
    proof (cases "ret e (h @ [Snd_pcm_resume]) = - EAGAIN")
      case True
      with body have "f e ((h @ [Snd_pcm_resume]) @ [Sleep 1]) = Some y"
        by (simp add: Let_def)
      from IH [OF this] obtain new where "snd y = ((h @ [Snd_pcm_resume]) @ [Sleep 1]) @ new"
        and "set new \<subseteq> {Snd_pcm_resume, Sleep 1}" by auto
      then have "snd y = h @ ([Snd_pcm_resume, Sleep 1] @ new) \<and>
                 set ([Snd_pcm_resume, Sleep 1] @ new) \<subseteq> {Snd_pcm_resume, Sleep 1}"
        by simp
      then show ?thesis by blast
    next
      case False
      with body have "snd y = h @ [Snd_pcm_resume]"
        by (auto simp: Let_def)
      then show ?thesis by simp
    qed
  qed
  then show ?thesis by simp
qed

lemma alsa_handle_xrun_calls:
  assumes "alsa_handle_xrun e h = Some (x, h')"
  shows "\<exists>new. h' = h @ new \<and>
           set new \<subseteq> {Snd_pcm_state, Snd_pcm_resume, Sleep 1, Snd_pcm_prepare}"
proof (cases "state_out e (h @ [Snd_pcm_state]) = SND_PCM_STATE_SUSPENDED")
  case True
  with assms obtain r h1 where rl: "resume_loop e (h @ [Snd_pcm_state]) = Some (r, h1)"
    and fin: "h' = h1 \<or> h' = h1 @ [Snd_pcm_prepare]"
    by (auto simp: alsa_handle_xrun_def xrun_case_def Let_def split: option.splits if_splits)
  from resume_loop_calls [OF rl] obtain new where
    "h1 = (h @ [Snd_pcm_state]) @ new" "set new \<subseteq> {Snd_pcm_resume, Sleep 1}"
    by blast
  with fin have "(h' = h @ (Snd_pcm_state # new) \<or> h' = h @ (Snd_pcm_state # new @ [Snd_pcm_prepare]))
     \<and> set (Snd_pcm_state # new @ [Snd_pcm_prepare]) \<subseteq> {Snd_pcm_state, Snd_pcm_resume, Sleep 1, Snd_pcm_prepare}"
    by auto
  then show ?thesis
    by (metis (no_types, lifting) set_append le_sup_iff append_Cons)
next
  case False
  with assms have "h' = h @ [Snd_pcm_state] \<or> h' = h @ [Snd_pcm_state, Snd_pcm_prepare]"
    by (cases "state_out e (h @ [Snd_pcm_state])")
      (auto simp: alsa_handle_xrun_def xrun_case_def Let_def split: if_splits)
  then show ?thesis by auto
qed

lemma delivered_recovery:
  assumes "set new \<subseteq> {Snd_pcm_state, Snd_pcm_resume, Sleep 1, Snd_pcm_prepare}"
  shows "delivered new = []"
  using assms by (induction new rule: delivered.induct) auto

lemma alsa_handle_xrun_delivers_nothing:
  "alsa_handle_xrun e h = Some (x, h') \<Longrightarrow> delivered h' = delivered h"
  using alsa_handle_xrun_calls [of e h x h'] by (auto simp: delivered_append delivered_recovery)

subsection \<open>A successful read\<close>

lemma sint_EAGAIN: "sint (word_of_int (- EAGAIN) :: snd_pcm_sframes_t) = - 11"
  by (simp add: EAGAIN_def)

lemma read_step_success:
  assumes "sframes_out e (h @ [Snd_pcm_mmap_readn count]) = frms" and "0 \<le> sint frms"
  shows "read_step e d a (count, delay, h) =
     (let h1 = h @ [Snd_pcm_mmap_readn count, Snd_pcm_delay];
          dly = (if ret e h1 < 0 then delay else sframes_out e h1);
          h2 = h1 @ [Get_audio_sample_time (frms + dly) (sample_rate d)]
      in Some (Next (count - frms, dly,
           h2 @ [Obs_source_output_audio (a\<lparr>frames := frms, timestamp := time_out e h2\<rparr>)])))"
proof -
  from assms(2) have "frms \<noteq> word_of_int (- EAGAIN)"
    using sint_EAGAIN by auto
  with assms show ?thesis
    by (simp add: read_step_def deliver_def Let_def)
qed

text \<open>
  Every delivery of a run follows that pattern: all of \<open>deliver\<close>, the passes of the two loops,
  the loops and the thread add only \<open>stamped\<close> calls.
\<close>

lemma stamped_append:
  "stamped e rate pre (xs @ ys) = (stamped e rate pre xs \<and> stamped e rate (pre @ xs) ys)"
  by (induction xs arbitrary: pre) auto

lemma stamped_recovery:
  "set new \<subseteq> {Snd_pcm_state, Snd_pcm_resume, Sleep 1, Snd_pcm_prepare} \<Longrightarrow> stamped e rate pre new"
  by (induction new arbitrary: pre) (auto simp: stamp_ok_def)

lemma deliver_stamped:
  assumes "samples_per_sec a = sample_rate d"
  shows "\<exists>count1 delay1 seg. deliver e d a frms (count, delay, h) = (count1, delay1, h @ seg) \<and>
           stamped e (sample_rate d) h seg"
proof -
  let ?h1 = "h @ [Snd_pcm_delay]"
  let ?dl = "if ret e ?h1 < 0 then delay else sframes_out e ?h1"
  let ?h2 = "?h1 @ [Get_audio_sample_time (frms + ?dl) (sample_rate d)]"
  let ?a1 = "a\<lparr>frames := frms, timestamp := time_out e ?h2\<rparr>"
  have "deliver e d a frms (count, delay, h) =
          (count - frms, ?dl, h @ [Snd_pcm_delay, Get_audio_sample_time (frms + ?dl) (sample_rate d),
                                   Obs_source_output_audio ?a1])"
    by (simp add: deliver_def Let_def)
  moreover have "stamped e (sample_rate d) h
      [Snd_pcm_delay, Get_audio_sample_time (frms + ?dl) (sample_rate d), Obs_source_output_audio ?a1]"
    using assms by (simp add: stamp_ok_def butlast_append)
  ultimately show ?thesis by blast
qed

lemma read_step_stamped:
  assumes "samples_per_sec a = sample_rate d"
    and "read_step e d a (count, delay, h) = Some fl"
  shows "\<exists>seg. stamped e (sample_rate d) h seg \<and>
           (case fl of Next (count1, delay1, h1) \<Rightarrow> h1 = h @ seg | Exit h1 \<Rightarrow> h1 = h @ seg)"
proof -
  let ?h1 = "h @ [Snd_pcm_mmap_readn count]"
  let ?f = "sframes_out e ?h1"
  have rd: "stamped e (sample_rate d) h [Snd_pcm_mmap_readn count]"
    by (simp add: stamp_ok_def)
  show ?thesis
  proof (cases "?f = word_of_int (- EAGAIN)")
    case True
    with assms(2) have "fl = Next (count, delay, ?h1)"
      by (simp add: read_step_def Let_def)
    with rd show ?thesis by auto
  next
    case nr: False
    show ?thesis
    proof (cases "sint ?f < 0")
      case False
      with nr assms(2) have fl: "fl = Next (deliver e d a ?f (count, delay, ?h1))"
        by (simp add: read_step_def Let_def)
      from deliver_stamped [OF assms(1), of e ?f count delay ?h1]
      obtain c1 d1 seg where "deliver e d a ?f (count, delay, ?h1) = (c1, d1, ?h1 @ seg)"
        and "stamped e (sample_rate d) ?h1 seg" by blast
      with fl rd have "stamped e (sample_rate d) h ([Snd_pcm_mmap_readn count] @ seg) \<and>
          fl = Next (c1, d1, h @ [Snd_pcm_mmap_readn count] @ seg)"
        by (simp add: stamped_append)
      then show ?thesis by (intro exI [of _ "[Snd_pcm_mmap_readn count] @ seg"]) simp
    next
      case True
      with nr assms(2) obtain x h2 where rec: "alsa_handle_xrun e ?h1 = Some (x, h2)"
        and fl: "fl = (if x < 0 then Exit h2 else Next (deliver e d a ?f (count, delay, h2)))"
        by (auto simp: read_step_def Let_def split: option.splits if_splits)
      from alsa_handle_xrun_calls [OF rec] obtain new where h2: "h2 = ?h1 @ new"
        and new: "set new \<subseteq> {Snd_pcm_state, Snd_pcm_resume, Sleep 1, Snd_pcm_prepare}"
        by blast
      from new have sn: "stamped e (sample_rate d) ?h1 new" by (rule stamped_recovery)
      show ?thesis
      proof (cases "x < 0")
        case True
        with fl h2 rd sn have "stamped e (sample_rate d) h ([Snd_pcm_mmap_readn count] @ new) \<and>
            fl = Exit (h @ [Snd_pcm_mmap_readn count] @ new)"
          by (simp add: stamped_append)
        then show ?thesis by (intro exI [of _ "[Snd_pcm_mmap_readn count] @ new"]) simp
      next
        case False
        from deliver_stamped [OF assms(1), of e ?f count delay h2]
        obtain c1 d1 seg where "deliver e d a ?f (count, delay, h2) = (c1, d1, h2 @ seg)"
          and "stamped e (sample_rate d) h2 seg" by blast
        with False fl h2 rd sn
        have "stamped e (sample_rate d) h ([Snd_pcm_mmap_readn count] @ new @ seg) \<and>
            fl = Next (c1, d1, h @ [Snd_pcm_mmap_readn count] @ new @ seg)"
          by (simp add: stamped_append)
        then show ?thesis by (intro exI [of _ "[Snd_pcm_mmap_readn count] @ new @ seg"]) simp
      qed
    qed
  qed
qed


lemma read_loop_stamped:
  assumes "samples_per_sec a = sample_rate d"
    and "read_loop e d a (count, delay, h) = Some fl"
  shows "\<exists>seg. reached fl = h @ seg \<and> stamped e (sample_rate d) h seg"
proof -
  have "samples_per_sec a = sample_rate d \<longrightarrow>
        (\<exists>seg. reached fl = snd (snd (count, delay, h)) @ seg \<and>
               stamped e (sample_rate d) (snd (snd (count, delay, h))) seg)"
  proof (rule read_loop.raw_induct
      [where P = "\<lambda>e d a s fl. samples_per_sec a = sample_rate d \<longrightarrow>
                    (\<exists>seg. reached fl = snd (snd s) @ seg \<and>
                           stamped e (sample_rate d) (snd (snd s)) seg)",
        OF _ assms(2)])
    fix f :: "env \<Rightarrow> alsa_data \<Rightarrow> obs_source_audio \<Rightarrow> read_state \<Rightarrow> history flow option"
      and e d a s fl
    assume IH: "\<And>e d a s fl. f e d a s = Some fl \<Longrightarrow>
        samples_per_sec a = sample_rate d \<longrightarrow>
        (\<exists>seg. reached fl = snd (snd s) @ seg \<and> stamped e (sample_rate d) (snd (snd s)) seg)"
      and body: "(case s of
                    (count, delay, h) \<Rightarrow>
                      if 0 < count
                      then case read_step e d a s of
                             None \<Rightarrow> None
                           | Some (Next s1) \<Rightarrow> f e d a s1
                           | Some (Exit h1) \<Rightarrow> Some (Exit h1)
                      else Some (Next h)) = Some fl"
    obtain count delay h where s: "s = (count, delay, h)" by (cases s)
    show "samples_per_sec a = sample_rate d \<longrightarrow>
          (\<exists>seg. reached fl = snd (snd s) @ seg \<and> stamped e (sample_rate d) (snd (snd s)) seg)"
    proof
      assume rate: "samples_per_sec a = sample_rate d"
      show "\<exists>seg. reached fl = snd (snd s) @ seg \<and> stamped e (sample_rate d) (snd (snd s)) seg"
      proof (cases "0 < count")
        case False
        with body s have "fl = Next h" by simp
        then have "reached fl = h @ [] \<and> stamped e (sample_rate d) h []" by simp
        with s show ?thesis by (intro exI [of _ "[]"]) simp
      next
        case True
        with body s obtain st where st: "read_step e d a (count, delay, h) = Some st"
          by (auto split: option.splits)
        from read_step_stamped [OF rate st] obtain seg1 where
          seg1: "stamped e (sample_rate d) h seg1" and
          to: "case st of Next (count1, delay1, h1) \<Rightarrow> h1 = h @ seg1 | Exit h1 \<Rightarrow> h1 = h @ seg1"
          by blast
        show ?thesis
        proof (cases st)
          case (Exit h1)
          with body s True st have "fl = Exit h1" by simp
          with Exit to seg1 s show ?thesis by auto
        next
          case (Next s1)
          obtain c1 d1 h1 where s1: "s1 = (c1, d1, h1)" by (cases s1)
          with Next to have h1: "h1 = h @ seg1" by simp
          from body s True st Next have "f e d a s1 = Some fl" by simp
          from IH [OF this] rate s1 obtain seg2 where
            "reached fl = h1 @ seg2" "stamped e (sample_rate d) h1 seg2" by auto
          with h1 seg1 have "reached fl = h @ (seg1 @ seg2) \<and>
              stamped e (sample_rate d) h (seg1 @ seg2)"
            by (simp add: stamped_append)
          with s show ?thesis by (intro exI [of _ "seg1 @ seg2"]) simp
        qed
      qed
    qed
  qed
  with assms(1) show ?thesis by simp
qed

lemma capture_step_stamped:
  assumes "samples_per_sec a = sample_rate d"
    and "capture_step e d a h = Some fl"
  shows "\<exists>seg. reached fl = h @ seg \<and> stamped e (sample_rate d) h seg"
proof -
  let ?h1 = "h @ [Snd_pcm_wait 1000]"
  have w: "stamped e (sample_rate d) h [Snd_pcm_wait 1000]"
    by (simp add: stamp_ok_def)
  consider (again) "ret e ?h1 = 0 \<or> ret e ?h1 = - EAGAIN"
    | (fault) "\<not> (ret e ?h1 = 0 \<or> ret e ?h1 = - EAGAIN)" "ret e ?h1 < 0"
    | (ready) "\<not> (ret e ?h1 = 0 \<or> ret e ?h1 = - EAGAIN)" "\<not> ret e ?h1 < 0"
    by blast
  then show ?thesis
  proof cases
    case again
    with assms(2) have "fl = Next ?h1"
      by (auto simp: capture_step_def Let_def)
    with w show ?thesis by (intro exI [of _ "[Snd_pcm_wait 1000]"]) simp
  next
    case ready
    with assms(2) have "read_loop e d a (period_size d, 0, ?h1) = Some fl"
      by (simp add: capture_step_def Let_def)
    from read_loop_stamped [OF assms(1) this] obtain seg where
      "reached fl = ?h1 @ seg" "stamped e (sample_rate d) ?h1 seg" by blast
    with w have "reached fl = h @ ([Snd_pcm_wait 1000] @ seg) \<and>
        stamped e (sample_rate d) h ([Snd_pcm_wait 1000] @ seg)"
      by (simp add: stamped_append)
    then show ?thesis by blast
  next
    case fault
    with assms(2) obtain x h2 where rec: "alsa_handle_xrun e ?h1 = Some (x, h2)"
      and fl: "(if x < 0 then Some (Exit h2) else read_loop e d a (period_size d, 0, h2)) = Some fl"
      by (auto simp: capture_step_def Let_def split: option.splits)
    from alsa_handle_xrun_calls [OF rec] obtain new where h2: "h2 = ?h1 @ new"
      and new: "set new \<subseteq> {Snd_pcm_state, Snd_pcm_resume, Sleep 1, Snd_pcm_prepare}"
      by blast
    from new have sn: "stamped e (sample_rate d) ?h1 new" by (rule stamped_recovery)
    show ?thesis
    proof (cases "x < 0")
      case True
      with fl h2 w sn have "reached fl = h @ ([Snd_pcm_wait 1000] @ new) \<and>
          stamped e (sample_rate d) h ([Snd_pcm_wait 1000] @ new)"
        by (auto simp: stamped_append)
      then show ?thesis by blast
    next
      case False
      with fl have "read_loop e d a (period_size d, 0, h2) = Some fl" by simp
      from read_loop_stamped [OF assms(1) this] obtain seg where
        "reached fl = h2 @ seg" "stamped e (sample_rate d) h2 seg" by blast
      with h2 w sn have "reached fl = h @ ([Snd_pcm_wait 1000] @ new @ seg) \<and>
          stamped e (sample_rate d) h ([Snd_pcm_wait 1000] @ new @ seg)"
        by (simp add: stamped_append)
      then show ?thesis by blast
    qed
  qed
qed

lemma capture_loop_stamped:
  assumes "samples_per_sec a = sample_rate d"
    and "capture_loop e d a h = Some h'"
  shows "\<exists>seg. h' = h @ seg \<and> stamped e (sample_rate d) h seg"
proof -
  have "samples_per_sec a = sample_rate d \<longrightarrow>
        (\<exists>seg. h' = h @ seg \<and> stamped e (sample_rate d) h seg)"
  proof (rule capture_loop.raw_induct
      [where P = "\<lambda>e d a h h'. samples_per_sec a = sample_rate d \<longrightarrow>
                    (\<exists>seg. h' = h @ seg \<and> stamped e (sample_rate d) h seg)",
        OF _ assms(2)])
    fix f :: "env \<Rightarrow> alsa_data \<Rightarrow> obs_source_audio \<Rightarrow> history \<Rightarrow> history option"
      and e d a h h'
    assume IH: "\<And>e d a h h'. f e d a h = Some h' \<Longrightarrow>
        samples_per_sec a = sample_rate d \<longrightarrow>
        (\<exists>seg. h' = h @ seg \<and> stamped e (sample_rate d) h seg)"
      and body: "(let h0 = h @ [Os_event_try]
                  in if ret e h0 = EAGAIN
                     then case capture_step e d a h0 of
                            None \<Rightarrow> None
                          | Some (Next h1) \<Rightarrow> f e d a h1
                          | Some (Exit h1) \<Rightarrow> Some h1
                     else Some h0) = Some h'"
    let ?h0 = "h @ [Os_event_try]"
    have t: "stamped e (sample_rate d) h [Os_event_try]"
      by (simp add: stamp_ok_def)
    show "samples_per_sec a = sample_rate d \<longrightarrow>
          (\<exists>seg. h' = h @ seg \<and> stamped e (sample_rate d) h seg)"
    proof
      assume rate: "samples_per_sec a = sample_rate d"
      show "\<exists>seg. h' = h @ seg \<and> stamped e (sample_rate d) h seg"
      proof (cases "ret e ?h0 = EAGAIN")
        case False
        with body have "h' = ?h0" by (simp add: Let_def)
        with t show ?thesis by blast
      next
        case True
        with body obtain st where st: "capture_step e d a ?h0 = Some st"
          by (auto simp: Let_def split: option.splits)
        from capture_step_stamped [OF rate st] obtain seg1 where
          seg1: "reached st = ?h0 @ seg1" "stamped e (sample_rate d) ?h0 seg1" by blast
        show ?thesis
        proof (cases st)
          case (Exit h1)
          with body True st have "h' = h1" by (simp add: Let_def)
          with Exit seg1 t have "h' = h @ ([Os_event_try] @ seg1) \<and>
              stamped e (sample_rate d) h ([Os_event_try] @ seg1)"
            by (simp add: stamped_append)
          then show ?thesis by blast
        next
          case (Next h1)
          with body True st have "f e d a h1 = Some h'" by (simp add: Let_def)
          from IH [OF this] rate obtain seg2 where
            "h' = h1 @ seg2" "stamped e (sample_rate d) h1 seg2" by auto
          with Next seg1 t have "h' = h @ ([Os_event_try] @ seg1 @ seg2) \<and>
              stamped e (sample_rate d) h ([Os_event_try] @ seg1 @ seg2)"
            by (simp add: stamped_append)
          then show ?thesis by blast
        qed
      qed
    qed
  qed
  with assms(1) show ?thesis by simp
qed

lemma alsa_thread_stamped:
  assumes "alsa_thread e d h = Some h'"
  shows "\<exists>seg. h' = h @ seg \<and> stamped e (sample_rate d) h seg"
proof (cases "ret e (h @ [Bzalloc_audio, Snd_pcm_start]) < 0")
  case True
  with assms have "h' = h @ [Bzalloc_audio, Snd_pcm_start]"
    by (simp add: alsa_thread_def Let_def)
  moreover have "stamped e (sample_rate d) h [Bzalloc_audio, Snd_pcm_start]"
    by (simp add: stamp_ok_def)
  ultimately show ?thesis by blast
next
  case False
  let ?h2 = "h @ [Bzalloc_audio, Snd_pcm_start, Get_speaker_layout (channels d)]"
  let ?a = "\<lparr>speakers = layout_out e ?h2, samples_per_sec = sample_rate d,
             audio_fmt = alsa_to_obs_audio_format (format d), frames = 0, timestamp = 0\<rparr>"
  from False assms obtain h3 where run: "capture_loop e d ?a ?h2 = Some h3"
    and h': "h' = h3 @ [Bfree_audio]"
    by (auto simp: alsa_thread_def Let_def split: option.splits)
  have "samples_per_sec ?a = sample_rate d" by simp
  from capture_loop_stamped [OF this run] obtain seg where
    seg: "h3 = ?h2 @ seg" "stamped e (sample_rate d) ?h2 seg" by blast
  have pre: "stamped e (sample_rate d) h
      [Bzalloc_audio, Snd_pcm_start, Get_speaker_layout (channels d)]"
    by (simp add: stamp_ok_def)
  have post: "stamped e (sample_rate d) h3 [Bfree_audio]"
    by (simp add: stamp_ok_def)
  from seg h' pre post have
    "h' = h @ ([Bzalloc_audio, Snd_pcm_start, Get_speaker_layout (channels d)] @ seg @ [Bfree_audio]) \<and>
     stamped e (sample_rate d) h
       ([Bzalloc_audio, Snd_pcm_start, Get_speaker_layout (channels d)] @ seg @ [Bfree_audio])"
    by (simp add: stamped_append)
  then show ?thesis by blast
qed

text \<open>
  Claim C6.  When a read returns a frame count that is not negative (a partial or a full
  read), that pass of the read loop queries the delay, calls \<open>get_audio_sample_time\<close> with
  the frames just read plus the delay and with the session's negotiated sample rate, and
  delivers a buffer whose timestamp is what that call returned.  The delay is the one the
  device reports; if the query itself fails (its result is not tested), the variable keeps
  the value it had, 0 or the report before.  And in every run of the thread that returns,
  every buffer delivered carries the timestamp so computed.
\<close>

theorem delivered_timestamp:
  "(sframes_out e (h @ [Snd_pcm_mmap_readn count]) = frms \<and> 0 \<le> sint frms \<longrightarrow>
    read_step e d a (count, delay, h) =
     (let h1 = h @ [Snd_pcm_mmap_readn count, Snd_pcm_delay];
          dly = (if ret e h1 < 0 then delay else sframes_out e h1);
          h2 = h1 @ [Get_audio_sample_time (frms + dly) (sample_rate d)]
      in Some (Next (count - frms, dly,
           h2 @ [Obs_source_output_audio (a\<lparr>frames := frms, timestamp := time_out e h2\<rparr>)])))) \<and>
   (alsa_thread e d h = Some h' \<longrightarrow>
      (\<exists>seg. h' = h @ seg \<and> stamped e (sample_rate d) h seg))"
  using read_step_success [of e h count frms d a delay] alsa_thread_stamped [of e d h h']
  by blast

subsection \<open>Evaluating the sample runs\<close>

lemmas sample_envs = quiet_def capture_env_def retry_env_def wait_fault_env_def read_fault_env_def
  wait_dead_env_def read_dead_env_def

lemmas thread_defs = alsa_thread_def capture_loop.simps capture_step_def read_loop.simps
  read_step_def deliver_def alsa_handle_xrun_def xrun_case_def resume_loop.simps EAGAIN_def
  Let_def session0_def session1_def audio0_def

lemma capture_run:
  "alsa_thread capture_env session1 [] =
     Some [Bzalloc_audio, Snd_pcm_start, Get_speaker_layout 2, Os_event_try, Snd_pcm_wait 1000,
           Snd_pcm_mmap_readn 4, Snd_pcm_delay, Get_audio_sample_time 7 48000,
           Obs_source_output_audio (audio0\<lparr>frames := 4, timestamp := 999993\<rparr>),
           Os_event_try, Bfree_audio]"
  by (simp add: sample_envs thread_defs)

theorem delivered_timestamp_witness:
  "sframes_out capture_env ([Os_event_try, Snd_pcm_wait 1000] @ [Snd_pcm_mmap_readn 4]) = 4 \<and>
   0 \<le> sint (4 :: snd_pcm_sframes_t) \<and>
   read_step capture_env session1 audio0 (4, 0, [Os_event_try, Snd_pcm_wait 1000]) =
     Some (Next (0, 3,
       [Os_event_try, Snd_pcm_wait 1000, Snd_pcm_mmap_readn 4, Snd_pcm_delay,
        Get_audio_sample_time 7 48000,
        Obs_source_output_audio (audio0\<lparr>frames := 4, timestamp := 999993\<rparr>)])) \<and>
   alsa_thread capture_env session1 [] =
     Some [Bzalloc_audio, Snd_pcm_start, Get_speaker_layout 2, Os_event_try, Snd_pcm_wait 1000,
           Snd_pcm_mmap_readn 4, Snd_pcm_delay, Get_audio_sample_time 7 48000,
           Obs_source_output_audio (audio0\<lparr>frames := 4, timestamp := 999993\<rparr>),
           Os_event_try, Bfree_audio] \<and>
   stamped capture_env 48000 []
     [Bzalloc_audio, Snd_pcm_start, Get_speaker_layout 2, Os_event_try, Snd_pcm_wait 1000,
      Snd_pcm_mmap_readn 4, Snd_pcm_delay, Get_audio_sample_time 7 48000,
      Obs_source_output_audio (audio0\<lparr>frames := 4, timestamp := 999993\<rparr>),
      Os_event_try, Bfree_audio]"
proof -
  have r: "sframes_out capture_env ([Os_event_try, Snd_pcm_wait 1000] @ [Snd_pcm_mmap_readn 4]) = 4 \<and>
           0 \<le> sint (4 :: snd_pcm_sframes_t)"
    by (simp add: sample_envs)
  have rate: "sample_rate session1 = 48000"
    by (simp add: session1_def session0_def)
  have p: "read_step capture_env session1 audio0 (4, 0, [Os_event_try, Snd_pcm_wait 1000]) =
     Some (Next (0, 3,
       [Os_event_try, Snd_pcm_wait 1000, Snd_pcm_mmap_readn 4, Snd_pcm_delay,
        Get_audio_sample_time 7 48000,
        Obs_source_output_audio (audio0\<lparr>frames := 4, timestamp := 999993\<rparr>)]))"
    using delivered_timestamp
            [of capture_env "[Os_event_try, Snd_pcm_wait 1000]" 4 4 session1 audio0 0] r
    by (simp add: sample_envs rate Let_def)
  have q: "stamped capture_env 48000 []
     [Bzalloc_audio, Snd_pcm_start, Get_speaker_layout 2, Os_event_try, Snd_pcm_wait 1000,
      Snd_pcm_mmap_readn 4, Snd_pcm_delay, Get_audio_sample_time 7 48000,
      Obs_source_output_audio (audio0\<lparr>frames := 4, timestamp := 999993\<rparr>),
      Os_event_try, Bfree_audio]"
  proof -
    from delivered_timestamp
           [where e = capture_env and h = "[]" and d = session1 and h' =
             "[Bzalloc_audio, Snd_pcm_start, Get_speaker_layout 2, Os_event_try, Snd_pcm_wait 1000,
               Snd_pcm_mmap_readn 4, Snd_pcm_delay, Get_audio_sample_time 7 48000,
               Obs_source_output_audio (audio0\<lparr>frames := 4, timestamp := 999993\<rparr>),
               Os_event_try, Bfree_audio]"]
         capture_run
    have "\<exists>seg. [Bzalloc_audio, Snd_pcm_start, Get_speaker_layout 2, Os_event_try,
                 Snd_pcm_wait 1000, Snd_pcm_mmap_readn 4, Snd_pcm_delay,
                 Get_audio_sample_time 7 48000,
                 Obs_source_output_audio (audio0\<lparr>frames := 4, timestamp := 999993\<rparr>),
                 Os_event_try, Bfree_audio] = [] @ seg \<and>
               stamped capture_env (sample_rate session1) [] seg"
      by blast
    then show ?thesis
      by (auto simp: rate)
  qed
  from r p q capture_run show ?thesis by simp
qed

subsection \<open>A read that asks to be retried\<close>

text \<open>
  Claim C7.  A read that answers \<open>-EAGAIN\<close> ends its pass with \<open>count\<close> and \<open>delay\<close> as they
  were and with nothing delivered.  If the next read returns the whole count, the read loop
  ends after these two reads with exactly one more buffer delivered, whose frame count is
  the full count.
\<close>

theorem retryable_read_keeps_quota:
  "(sframes_out e (h @ [Snd_pcm_mmap_readn count]) = word_of_int (- EAGAIN) \<longrightarrow>
      read_step e d a (count, delay, h) = Some (Next (count, delay, h @ [Snd_pcm_mmap_readn count]))) \<and>
   (0 < count \<and> 0 \<le> sint count \<and>
    sframes_out e (h @ [Snd_pcm_mmap_readn count]) = word_of_int (- EAGAIN) \<and>
    sframes_out e (h @ [Snd_pcm_mmap_readn count, Snd_pcm_mmap_readn count]) = count \<longrightarrow>
      read_loop e d a (count, delay, h) =
        (let h1 = h @ [Snd_pcm_mmap_readn count, Snd_pcm_mmap_readn count, Snd_pcm_delay];
             dly = (if ret e h1 < 0 then delay else sframes_out e h1);
             h2 = h1 @ [Get_audio_sample_time (count + dly) (sample_rate d)];
             h3 = h2 @ [Obs_source_output_audio (a\<lparr>frames := count, timestamp := time_out e h2\<rparr>)]
         in Some (Next h3)) \<and>
      (let h1 = h @ [Snd_pcm_mmap_readn count, Snd_pcm_mmap_readn count, Snd_pcm_delay];
           dly = (if ret e h1 < 0 then delay else sframes_out e h1);
           h2 = h1 @ [Get_audio_sample_time (count + dly) (sample_rate d)];
           h3 = h2 @ [Obs_source_output_audio (a\<lparr>frames := count, timestamp := time_out e h2\<rparr>)]
       in delivered h3 = delivered h @ [a\<lparr>frames := count, timestamp := time_out e h2\<rparr>]))"
proof (intro conjI impI)
  assume "sframes_out e (h @ [Snd_pcm_mmap_readn count]) = word_of_int (- EAGAIN)"
  then show "read_step e d a (count, delay, h) = Some (Next (count, delay, h @ [Snd_pcm_mmap_readn count]))"
    by (simp add: read_step_def Let_def)
next
  assume a: "0 < count \<and> 0 \<le> sint count \<and>
    sframes_out e (h @ [Snd_pcm_mmap_readn count]) = word_of_int (- EAGAIN) \<and>
    sframes_out e (h @ [Snd_pcm_mmap_readn count, Snd_pcm_mmap_readn count]) = count"
  then have first: "read_step e d a (count, delay, h) = Some (Next (count, delay, h @ [Snd_pcm_mmap_readn count]))"
    by (simp add: read_step_def Let_def)
  from a have second: "sframes_out e ((h @ [Snd_pcm_mmap_readn count]) @ [Snd_pcm_mmap_readn count]) = count"
    by simp
  from a have nn: "0 \<le> sint count" by simp
  have "read_loop e d a (count, delay, h) = read_loop e d a (count, delay, h @ [Snd_pcm_mmap_readn count])"
    using a by (subst read_loop.simps) (simp add: first)
  also have "\<dots> = read_loop e d a (0,
       (if ret e (h @ [Snd_pcm_mmap_readn count, Snd_pcm_mmap_readn count, Snd_pcm_delay]) < 0 then delay
        else sframes_out e (h @ [Snd_pcm_mmap_readn count, Snd_pcm_mmap_readn count, Snd_pcm_delay])),
       h @ [Snd_pcm_mmap_readn count, Snd_pcm_mmap_readn count, Snd_pcm_delay,
            Get_audio_sample_time (count + (if ret e (h @ [Snd_pcm_mmap_readn count, Snd_pcm_mmap_readn count, Snd_pcm_delay]) < 0 then delay
        else sframes_out e (h @ [Snd_pcm_mmap_readn count, Snd_pcm_mmap_readn count, Snd_pcm_delay]))) (sample_rate d),
            Obs_source_output_audio (a\<lparr>frames := count, timestamp := time_out e (h @ [Snd_pcm_mmap_readn count, Snd_pcm_mmap_readn count, Snd_pcm_delay,
            Get_audio_sample_time (count + (if ret e (h @ [Snd_pcm_mmap_readn count, Snd_pcm_mmap_readn count, Snd_pcm_delay]) < 0 then delay
        else sframes_out e (h @ [Snd_pcm_mmap_readn count, Snd_pcm_mmap_readn count, Snd_pcm_delay]))) (sample_rate d)])\<rparr>)])"
    using a by (subst read_loop.simps) (simp add: read_step_success [OF second nn] Let_def)
  also have "\<dots> = Some (Next (h @ [Snd_pcm_mmap_readn count, Snd_pcm_mmap_readn count, Snd_pcm_delay,
            Get_audio_sample_time (count + (if ret e (h @ [Snd_pcm_mmap_readn count, Snd_pcm_mmap_readn count, Snd_pcm_delay]) < 0 then delay
        else sframes_out e (h @ [Snd_pcm_mmap_readn count, Snd_pcm_mmap_readn count, Snd_pcm_delay]))) (sample_rate d),
            Obs_source_output_audio (a\<lparr>frames := count, timestamp := time_out e (h @ [Snd_pcm_mmap_readn count, Snd_pcm_mmap_readn count, Snd_pcm_delay,
            Get_audio_sample_time (count + (if ret e (h @ [Snd_pcm_mmap_readn count, Snd_pcm_mmap_readn count, Snd_pcm_delay]) < 0 then delay
        else sframes_out e (h @ [Snd_pcm_mmap_readn count, Snd_pcm_mmap_readn count, Snd_pcm_delay]))) (sample_rate d)])\<rparr>)]))"
    by (subst read_loop.simps) simp
  finally show "read_loop e d a (count, delay, h) =
        (let h1 = h @ [Snd_pcm_mmap_readn count, Snd_pcm_mmap_readn count, Snd_pcm_delay];
             dly = (if ret e h1 < 0 then delay else sframes_out e h1);
             h2 = h1 @ [Get_audio_sample_time (count + dly) (sample_rate d)];
             h3 = h2 @ [Obs_source_output_audio (a\<lparr>frames := count, timestamp := time_out e h2\<rparr>)]
         in Some (Next h3))"
    by (simp add: Let_def)
next
  show "(let h1 = h @ [Snd_pcm_mmap_readn count, Snd_pcm_mmap_readn count, Snd_pcm_delay];
           dly = (if ret e h1 < 0 then delay else sframes_out e h1);
           h2 = h1 @ [Get_audio_sample_time (count + dly) (sample_rate d)];
           h3 = h2 @ [Obs_source_output_audio (a\<lparr>frames := count, timestamp := time_out e h2\<rparr>)]
       in delivered h3 = delivered h @ [a\<lparr>frames := count, timestamp := time_out e h2\<rparr>])"
    by (simp add: Let_def delivered_append)
qed


theorem retryable_read_keeps_quota_witness:
  "(0 :: snd_pcm_uframes_t) < 4 \<and> 0 \<le> sint (4 :: snd_pcm_uframes_t) \<and>
   sframes_out retry_env ([Os_event_try, Snd_pcm_wait 1000] @ [Snd_pcm_mmap_readn 4]) =
     word_of_int (- EAGAIN) \<and>
   sframes_out retry_env
     ([Os_event_try, Snd_pcm_wait 1000] @ [Snd_pcm_mmap_readn 4, Snd_pcm_mmap_readn 4]) = 4 \<and>
   read_step retry_env session1 audio0 (4, 0, [Os_event_try, Snd_pcm_wait 1000]) =
     Some (Next (4, 0, [Os_event_try, Snd_pcm_wait 1000, Snd_pcm_mmap_readn 4])) \<and>
   read_loop retry_env session1 audio0 (4, 0, [Os_event_try, Snd_pcm_wait 1000]) =
     Some (Next [Os_event_try, Snd_pcm_wait 1000, Snd_pcm_mmap_readn 4, Snd_pcm_mmap_readn 4,
                 Snd_pcm_delay, Get_audio_sample_time 7 48000,
                 Obs_source_output_audio (audio0\<lparr>frames := 4, timestamp := 999993\<rparr>)]) \<and>
   delivered [Os_event_try, Snd_pcm_wait 1000, Snd_pcm_mmap_readn 4, Snd_pcm_mmap_readn 4,
              Snd_pcm_delay, Get_audio_sample_time 7 48000,
              Obs_source_output_audio (audio0\<lparr>frames := 4, timestamp := 999993\<rparr>)] =
     [audio0\<lparr>frames := 4, timestamp := 999993\<rparr>]"
proof -
  have hyp: "(0 :: snd_pcm_uframes_t) < 4 \<and> 0 \<le> sint (4 :: snd_pcm_uframes_t) \<and>
    sframes_out retry_env ([Os_event_try, Snd_pcm_wait 1000] @ [Snd_pcm_mmap_readn 4]) =
      word_of_int (- EAGAIN) \<and>
    sframes_out retry_env
      ([Os_event_try, Snd_pcm_wait 1000] @ [Snd_pcm_mmap_readn 4, Snd_pcm_mmap_readn 4]) = 4"
    by (simp add: sample_envs EAGAIN_def)
  from retryable_read_keeps_quota
         [of retry_env "[Os_event_try, Snd_pcm_wait 1000]" 4 session1 audio0 0] hyp
  show ?thesis
    by (simp add: sample_envs session1_def session0_def Let_def)
qed

text \<open>The same scenario as a whole run of the thread.\<close>

lemma retry_thread_run:
  "alsa_thread retry_env session1 [] =
     Some [Bzalloc_audio, Snd_pcm_start, Get_speaker_layout 2, Os_event_try, Snd_pcm_wait 1000,
           Snd_pcm_mmap_readn 4, Snd_pcm_mmap_readn 4, Snd_pcm_delay,
           Get_audio_sample_time 7 48000,
           Obs_source_output_audio (audio0\<lparr>frames := 4, timestamp := 999993\<rparr>),
           Os_event_try, Bfree_audio]"
  by (simp add: sample_envs thread_defs)

subsection \<open>Device faults\<close>

text \<open>
  Claim C4, as the code has it by design.  A wait fault is a negative result of
  \<open>snd_pcm_wait\<close> other than \<open>-EAGAIN\<close>, a read fault a negative result of the read other
  than \<open>-EAGAIN\<close>; \<open>x\<close> and \<open>h2\<close> are the result of recovery and the history after it.
  After a wait fault nothing has been delivered, and the loop ends at once if recovery
  failed, while after a successful recovery it goes on to the read loop of the same
  iteration, with the full period as quota, rather than back to the wait.  After a read
  fault whose recovery failed nothing has been delivered and the read loop leaves for
  \<open>exit\<close>, which ends the outer loop there.
\<close>

theorem device_fault_transitions:
  "(ret e (h @ [Os_event_try]) = EAGAIN \<and>
    ret e (h @ [Os_event_try, Snd_pcm_wait 1000]) < 0 \<and>
    ret e (h @ [Os_event_try, Snd_pcm_wait 1000]) \<noteq> - EAGAIN \<and>
    alsa_handle_xrun e (h @ [Os_event_try, Snd_pcm_wait 1000]) = Some (x, h2) \<longrightarrow>
      delivered h2 = delivered h \<and>
      capture_loop e d a h =
        (if x < 0 then Some h2
         else case read_loop e d a (period_size d, 0, h2) of
                None \<Rightarrow> None
              | Some (Next h3) \<Rightarrow> capture_loop e d a h3
              | Some (Exit h3) \<Rightarrow> Some h3)) \<and>
   (0 < count \<and>
    sint (sframes_out e (h @ [Snd_pcm_mmap_readn count])) < 0 \<and>
    sframes_out e (h @ [Snd_pcm_mmap_readn count]) \<noteq> word_of_int (- EAGAIN) \<and>
    alsa_handle_xrun e (h @ [Snd_pcm_mmap_readn count]) = Some (x, h2) \<and> x < 0 \<longrightarrow>
      delivered h2 = delivered h \<and>
      read_loop e d a (count, delay, h) = Some (Exit h2)) \<and>
   (ret e (h @ [Os_event_try]) = EAGAIN \<and>
    capture_step e d a (h @ [Os_event_try]) = Some (Exit h2) \<longrightarrow>
      capture_loop e d a h = Some h2)"
proof (intro conjI impI)
  assume a: "ret e (h @ [Os_event_try]) = EAGAIN \<and>
    ret e (h @ [Os_event_try, Snd_pcm_wait 1000]) < 0 \<and>
    ret e (h @ [Os_event_try, Snd_pcm_wait 1000]) \<noteq> - EAGAIN \<and>
    alsa_handle_xrun e (h @ [Os_event_try, Snd_pcm_wait 1000]) = Some (x, h2)"
  then have "delivered h2 = delivered (h @ [Os_event_try, Snd_pcm_wait 1000])"
    by (intro alsa_handle_xrun_delivers_nothing [of e _ x]) simp
  then show "delivered h2 = delivered h"
    by (simp add: delivered_append)
  from a have step: "capture_step e d a (h @ [Os_event_try]) =
      (if x < 0 then Some (Exit h2) else read_loop e d a (period_size d, 0, h2))"
    by (simp add: capture_step_def Let_def)
  from a show "capture_loop e d a h =
        (if x < 0 then Some h2
         else case read_loop e d a (period_size d, 0, h2) of
                None \<Rightarrow> None
              | Some (Next h3) \<Rightarrow> capture_loop e d a h3
              | Some (Exit h3) \<Rightarrow> Some h3)"
    by (subst capture_loop.simps) (simp add: step Let_def)
next
  assume a: "0 < count \<and>
    sint (sframes_out e (h @ [Snd_pcm_mmap_readn count])) < 0 \<and>
    sframes_out e (h @ [Snd_pcm_mmap_readn count]) \<noteq> word_of_int (- EAGAIN) \<and>
    alsa_handle_xrun e (h @ [Snd_pcm_mmap_readn count]) = Some (x, h2) \<and> x < 0"
  then have "delivered h2 = delivered (h @ [Snd_pcm_mmap_readn count])"
    by (intro alsa_handle_xrun_delivers_nothing [of e _ x]) simp
  then show "delivered h2 = delivered h"
    by (simp add: delivered_append)
  from a have "read_step e d a (count, delay, h) = Some (Exit h2)"
    by (simp add: read_step_def Let_def)
  with a show "read_loop e d a (count, delay, h) = Some (Exit h2)"
    by (subst read_loop.simps) simp
next
  assume "ret e (h @ [Os_event_try]) = EAGAIN \<and>
    capture_step e d a (h @ [Os_event_try]) = Some (Exit h2)"
  then show "capture_loop e d a h = Some h2"
    by (subst capture_loop.simps) (simp add: Let_def)
qed

lemma wait_dead_recovery:
  "alsa_handle_xrun wait_dead_env ([] @ [Os_event_try, Snd_pcm_wait 1000]) =
     Some (- 1, [Os_event_try, Snd_pcm_wait 1000, Snd_pcm_state])"
  by (simp add: alsa_handle_xrun_def sample_envs)

lemma wait_fault_recovery:
  "alsa_handle_xrun wait_fault_env ([] @ [Os_event_try, Snd_pcm_wait 1000]) =
     Some (0, [Os_event_try, Snd_pcm_wait 1000, Snd_pcm_state, Snd_pcm_prepare])"
  by (simp add: alsa_handle_xrun_def xrun_case_def Let_def sample_envs)

lemma read_dead_recovery:
  "alsa_handle_xrun read_dead_env
     ([Os_event_try, Snd_pcm_wait 1000] @ [Snd_pcm_mmap_readn 4]) =
     Some (- 1, [Os_event_try, Snd_pcm_wait 1000, Snd_pcm_mmap_readn 4, Snd_pcm_state])"
  by (simp add: alsa_handle_xrun_def sample_envs)

theorem device_fault_transitions_witness:
  "ret wait_dead_env ([] @ [Os_event_try]) = EAGAIN \<and>
   ret wait_dead_env ([] @ [Os_event_try, Snd_pcm_wait 1000]) < 0 \<and>
   ret wait_dead_env ([] @ [Os_event_try, Snd_pcm_wait 1000]) \<noteq> - EAGAIN \<and>
   alsa_handle_xrun wait_dead_env ([] @ [Os_event_try, Snd_pcm_wait 1000]) =
     Some (- 1, [Os_event_try, Snd_pcm_wait 1000, Snd_pcm_state]) \<and>
   capture_loop wait_dead_env session1 audio0 [] =
     Some [Os_event_try, Snd_pcm_wait 1000, Snd_pcm_state] \<and>
   ret wait_fault_env ([] @ [Os_event_try]) = EAGAIN \<and>
   ret wait_fault_env ([] @ [Os_event_try, Snd_pcm_wait 1000]) < 0 \<and>
   ret wait_fault_env ([] @ [Os_event_try, Snd_pcm_wait 1000]) \<noteq> - EAGAIN \<and>
   alsa_handle_xrun wait_fault_env ([] @ [Os_event_try, Snd_pcm_wait 1000]) =
     Some (0, [Os_event_try, Snd_pcm_wait 1000, Snd_pcm_state, Snd_pcm_prepare]) \<and>
   capture_loop wait_fault_env session1 audio0 [] =
     (case read_loop wait_fault_env session1 audio0
             (4, 0, [Os_event_try, Snd_pcm_wait 1000, Snd_pcm_state, Snd_pcm_prepare]) of
        None \<Rightarrow> None
      | Some (Next h3) \<Rightarrow> capture_loop wait_fault_env session1 audio0 h3
      | Some (Exit h3) \<Rightarrow> Some h3) \<and>
   (0 :: snd_pcm_uframes_t) < 4 \<and>
   sint (sframes_out read_dead_env
           ([Os_event_try, Snd_pcm_wait 1000] @ [Snd_pcm_mmap_readn 4])) < 0 \<and>
   sframes_out read_dead_env ([Os_event_try, Snd_pcm_wait 1000] @ [Snd_pcm_mmap_readn 4]) \<noteq>
     word_of_int (- EAGAIN) \<and>
   alsa_handle_xrun read_dead_env
     ([Os_event_try, Snd_pcm_wait 1000] @ [Snd_pcm_mmap_readn 4]) =
     Some (- 1, [Os_event_try, Snd_pcm_wait 1000, Snd_pcm_mmap_readn 4, Snd_pcm_state]) \<and>
   read_loop read_dead_env session1 audio0 (4, 0, [Os_event_try, Snd_pcm_wait 1000]) =
     Some (Exit [Os_event_try, Snd_pcm_wait 1000, Snd_pcm_mmap_readn 4, Snd_pcm_state]) \<and>
   capture_step read_dead_env session1 audio0 ([] @ [Os_event_try]) =
     Some (Exit [Os_event_try, Snd_pcm_wait 1000, Snd_pcm_mmap_readn 4, Snd_pcm_state]) \<and>
   capture_loop read_dead_env session1 audio0 [] =
     Some [Os_event_try, Snd_pcm_wait 1000, Snd_pcm_mmap_readn 4, Snd_pcm_state]"
proof -
  have w: "ret wait_dead_env ([] @ [Os_event_try]) = EAGAIN \<and>
    ret wait_dead_env ([] @ [Os_event_try, Snd_pcm_wait 1000]) < 0 \<and>
    ret wait_dead_env ([] @ [Os_event_try, Snd_pcm_wait 1000]) \<noteq> - EAGAIN"
    by (simp add: sample_envs EAGAIN_def)
  have f: "ret wait_fault_env ([] @ [Os_event_try]) = EAGAIN \<and>
    ret wait_fault_env ([] @ [Os_event_try, Snd_pcm_wait 1000]) < 0 \<and>
    ret wait_fault_env ([] @ [Os_event_try, Snd_pcm_wait 1000]) \<noteq> - EAGAIN"
    by (simp add: sample_envs EAGAIN_def)
  have r: "(0 :: snd_pcm_uframes_t) < 4 \<and>
    sint (sframes_out read_dead_env
           ([Os_event_try, Snd_pcm_wait 1000] @ [Snd_pcm_mmap_readn 4])) < 0 \<and>
    sframes_out read_dead_env ([Os_event_try, Snd_pcm_wait 1000] @ [Snd_pcm_mmap_readn 4]) \<noteq>
      word_of_int (- EAGAIN)"
    by (simp add: sample_envs EAGAIN_def)
  have rl: "read_loop read_dead_env session1 audio0 (4, 0, [Os_event_try, Snd_pcm_wait 1000]) =
     Some (Exit [Os_event_try, Snd_pcm_wait 1000, Snd_pcm_mmap_readn 4, Snd_pcm_state])"
    using device_fault_transitions
            [of read_dead_env "[Os_event_try, Snd_pcm_wait 1000]" "- 1"
                "[Os_event_try, Snd_pcm_wait 1000, Snd_pcm_mmap_readn 4, Snd_pcm_state]"
                session1 audio0 4 0]
          r read_dead_recovery
    by simp
  have cs: "capture_step read_dead_env session1 audio0 ([] @ [Os_event_try]) =
     Some (Exit [Os_event_try, Snd_pcm_wait 1000, Snd_pcm_mmap_readn 4, Snd_pcm_state])"
  proof -
    have "ret read_dead_env [Os_event_try, Snd_pcm_wait 1000] = 1"
      by (simp add: sample_envs)
    moreover have "period_size session1 = 4"
      by (simp add: session1_def)
    ultimately show ?thesis
      using rl by (simp add: capture_step_def Let_def EAGAIN_def)
  qed
  have t: "ret read_dead_env ([] @ [Os_event_try]) = EAGAIN"
    by (simp add: sample_envs EAGAIN_def)
  have cl: "capture_loop read_dead_env session1 audio0 [] =
     Some [Os_event_try, Snd_pcm_wait 1000, Snd_pcm_mmap_readn 4, Snd_pcm_state]"
    using device_fault_transitions
            [of read_dead_env "[]" "- 1"
                "[Os_event_try, Snd_pcm_wait 1000, Snd_pcm_mmap_readn 4, Snd_pcm_state]"
                session1 audio0 4 0]
          t cs
    by simp
  have wl: "capture_loop wait_dead_env session1 audio0 [] =
     Some [Os_event_try, Snd_pcm_wait 1000, Snd_pcm_state]"
    using device_fault_transitions
            [of wait_dead_env "[]" "- 1" "[Os_event_try, Snd_pcm_wait 1000, Snd_pcm_state]"
                session1 audio0 4 0]
          w wait_dead_recovery
    by simp
  have fl: "capture_loop wait_fault_env session1 audio0 [] =
     (case read_loop wait_fault_env session1 audio0
             (4, 0, [Os_event_try, Snd_pcm_wait 1000, Snd_pcm_state, Snd_pcm_prepare]) of
        None \<Rightarrow> None
      | Some (Next h3) \<Rightarrow> capture_loop wait_fault_env session1 audio0 h3
      | Some (Exit h3) \<Rightarrow> Some h3)"
    using device_fault_transitions
            [of wait_fault_env "[]" 0
                "[Os_event_try, Snd_pcm_wait 1000, Snd_pcm_state, Snd_pcm_prepare]"
                session1 audio0 4 0]
          f wait_fault_recovery
    by (simp add: session1_def)
  show ?thesis
    using w f r rl cs cl wl fl wait_dead_recovery wait_fault_recovery read_dead_recovery
    by simp
qed

text \<open>
  After a read fault with a successful recovery the code has no \<open>continue\<close> (the \<open>-EAGAIN\<close>
  branch just above has one): the pass falls into the delivery with the negative result as
  its frame count.
\<close>

lemma recovered_read_fault_falls_into_delivery:
  assumes "sint (sframes_out e (h @ [Snd_pcm_mmap_readn count])) < 0"
    and "sframes_out e (h @ [Snd_pcm_mmap_readn count]) \<noteq> word_of_int (- EAGAIN)"
    and "alsa_handle_xrun e (h @ [Snd_pcm_mmap_readn count]) = Some (x, h2)" and "0 \<le> x"
  shows "read_step e d a (count, delay, h) =
           Some (Next (deliver e d a (sframes_out e (h @ [Snd_pcm_mmap_readn count]))
                         (count, delay, h2)))"
  using assms by (simp add: read_step_def Let_def)

text \<open>
  Two runs of the thread on a device in state \<open>XRUN\<close>, with a period of 4 frames.  In the
  first the wait fails with \<open>-EPIPE\<close> (-32): recovery succeeds, and the next call is the read
  of the period, whose buffer is delivered before the loop comes back to \<open>os_event_try\<close> and
  the wait.  In the second the read fails with \<open>-EPIPE\<close>: recovery succeeds, a buffer of -32
  frames is delivered, \<open>count -= frames\<close> raises the quota from 4 to 36, and the next read is
  asked for 36 frames.
\<close>

theorem recovered_fault_counterexample:
  "ret wait_fault_env
     [Bzalloc_audio, Snd_pcm_start, Get_speaker_layout 2, Os_event_try, Snd_pcm_wait 1000] = - 32 \<and>
   alsa_handle_xrun wait_fault_env
     [Bzalloc_audio, Snd_pcm_start, Get_speaker_layout 2, Os_event_try, Snd_pcm_wait 1000] =
     Some (0, [Bzalloc_audio, Snd_pcm_start, Get_speaker_layout 2, Os_event_try,
               Snd_pcm_wait 1000, Snd_pcm_state, Snd_pcm_prepare]) \<and>
   alsa_thread wait_fault_env session1 [] =
     Some [Bzalloc_audio, Snd_pcm_start, Get_speaker_layout 2, Os_event_try, Snd_pcm_wait 1000,
           Snd_pcm_state, Snd_pcm_prepare,
           Snd_pcm_mmap_readn 4, Snd_pcm_delay, Get_audio_sample_time 7 48000,
           Obs_source_output_audio (audio0\<lparr>frames := 4, timestamp := 999993\<rparr>),
           Os_event_try, Bfree_audio] \<and>
   sframes_out read_fault_env
     [Bzalloc_audio, Snd_pcm_start, Get_speaker_layout 2, Os_event_try, Snd_pcm_wait 1000,
      Snd_pcm_mmap_readn 4] = - 32 \<and>
   alsa_handle_xrun read_fault_env
     [Bzalloc_audio, Snd_pcm_start, Get_speaker_layout 2, Os_event_try, Snd_pcm_wait 1000,
      Snd_pcm_mmap_readn 4] =
     Some (0, [Bzalloc_audio, Snd_pcm_start, Get_speaker_layout 2, Os_event_try,
               Snd_pcm_wait 1000, Snd_pcm_mmap_readn 4, Snd_pcm_state, Snd_pcm_prepare]) \<and>
   alsa_thread read_fault_env session1 [] =
     Some [Bzalloc_audio, Snd_pcm_start, Get_speaker_layout 2, Os_event_try, Snd_pcm_wait 1000,
           Snd_pcm_mmap_readn 4, Snd_pcm_state, Snd_pcm_prepare,
           Snd_pcm_delay, Get_audio_sample_time (- 29) 48000,
           Obs_source_output_audio (audio0\<lparr>frames := - 32, timestamp := 1000029\<rparr>),
           Snd_pcm_mmap_readn 36, Snd_pcm_delay, Get_audio_sample_time 39 48000,
           Obs_source_output_audio (audio0\<lparr>frames := 36, timestamp := 999961\<rparr>),
           Os_event_try, Bfree_audio]"
  by (simp add: sample_envs thread_defs)

section \<open>Device enumeration: \<open>alsa_device_list\<close>\<close>

lemmas enum_defs = alsa_device_list_def card_loop.simps card_step_def device_loop.simps
  device_step_def card_str_def device_str_def description_def show_int_def show_nat.simps Let_def

lemma entries_append: "entries (h @ h') = entries h @ entries h'"
  by (induction h rule: entries.induct) simp_all

text \<open>Both loops only ever add calls to the history they start from.\<close>

lemma device_step_extends:
  "device_step e cno nm (dev, h) = Next (dev1, h1) \<Longrightarrow> \<exists>rest. h1 = h @ rest"
  "device_step e cno nm (dev, h) = Exit h1 \<Longrightarrow> \<exists>rest. h1 = h @ rest"
  by (auto simp: device_step_def Let_def split: if_splits)

lemma device_loop_extends:
  assumes "device_loop e cno nm (dev, h) = Some h'"
  shows "\<exists>rest. h' = h @ rest"
proof -
  have "\<exists>rest. h' = snd (dev, h) @ rest"
  proof (rule device_loop.raw_induct
      [where P = "\<lambda>e cno nm s h'. \<exists>rest. h' = snd s @ rest", OF _ assms])
    fix f :: "env \<Rightarrow> int \<Rightarrow> string \<Rightarrow> int \<times> history \<Rightarrow> history option"
      and e cno nm s h'
    assume IH: "\<And>e cno nm s h'. f e cno nm s = Some h' \<Longrightarrow> \<exists>rest. h' = snd s @ rest"
      and body: "(case device_step e cno nm s of
                    Next s1 \<Rightarrow> f e cno nm s1
                  | Exit h1 \<Rightarrow> Some h1) = Some h'"
    obtain dev h where s: "s = (dev, h)" by (cases s)
    show "\<exists>rest. h' = snd s @ rest"
    proof (cases "device_step e cno nm (dev, h)")
      case (Next s1)
      obtain dev1 h1 where s1: "s1 = (dev1, h1)" by (cases s1)
      from Next s1 device_step_extends(1) obtain r1 where r1: "h1 = h @ r1" by blast
      from body Next s have "f e cno nm s1 = Some h'" by simp
      from IH [OF this] s1 obtain r2 where "h' = h1 @ r2" by auto
      with r1 s show ?thesis by simp
    next
      case (Exit h1)
      with body s have "h1 = h'" by simp
      with Exit device_step_extends(2) s show ?thesis by auto
    qed
  qed
  then show ?thesis by simp
qed

lemma card_step_extends:
  "card_step e (cno, h) = Some (Next (cno1, h1)) \<Longrightarrow> \<exists>rest. h1 = h @ rest"
  "card_step e (cno, h) = Some (Exit h1) \<Longrightarrow> \<exists>rest. h1 = h @ rest"
  by (auto simp: card_step_def Let_def split: if_splits option.splits
      dest!: device_loop_extends)

lemma card_loop_extends:
  assumes "card_loop e (cno, h) = Some h'"
  shows "\<exists>rest. h' = h @ rest"
proof -
  have "\<exists>rest. h' = snd (cno, h) @ rest"
  proof (rule card_loop.raw_induct
      [where P = "\<lambda>e s h'. \<exists>rest. h' = snd s @ rest", OF _ assms])
    fix f :: "env \<Rightarrow> int \<times> history \<Rightarrow> history option" and e s h'
    assume IH: "\<And>e s h'. f e s = Some h' \<Longrightarrow> \<exists>rest. h' = snd s @ rest"
      and body: "(case card_step e s of
                    None \<Rightarrow> None
                  | Some (Next s1) \<Rightarrow> f e s1
                  | Some (Exit h1) \<Rightarrow> Some h1) = Some h'"
    obtain cno h where s: "s = (cno, h)" by (cases s)
    from body obtain fl where fl: "card_step e (cno, h) = Some fl"
      by (auto simp: s split: option.splits)
    show "\<exists>rest. h' = snd s @ rest"
    proof (cases fl)
      case (Next s1)
      obtain cno1 h1 where s1: "s1 = (cno1, h1)" by (cases s1)
      from fl Next s1 card_step_extends(1) obtain r1 where r1: "h1 = h @ r1" by blast
      from body fl Next s have "f e s1 = Some h'" by simp
      from IH [OF this] s1 obtain r2 where "h' = h1 @ r2" by auto
      with r1 s show ?thesis by simp
    next
      case (Exit h1)
      with body fl s have "h1 = h'" by simp
      with Exit fl card_step_extends(2) s show ?thesis by auto
    qed
  qed
  then show ?thesis by simp
qed

text \<open>
  Claim C9.  A card that cannot be opened, or that opens but cannot be queried (it is then
  closed), ends its pass of the outer loop with no entry added, and the enumeration goes on
  from that card's number to the next card.  A device whose query fails ends its pass of the
  inner loop with no entry added, and the enumeration goes on to the card's next device.
  The list is cleared and the default entry added before the first card is looked at, so
  whenever the enumeration returns these are the first two calls it made.
\<close>

theorem enumeration_failures_skipped:
  "(ret e (h @ [Snd_card_next cno]) = 0 \<and> index_out e (h @ [Snd_card_next cno]) = c \<and> 0 \<le> c \<and>
    ret e (h @ [Snd_card_next cno, Snd_ctl_open (card_str c)]) \<noteq> 0 \<longrightarrow>
      card_step e (cno, h) = Some (Next (c, h @ [Snd_card_next cno, Snd_ctl_open (card_str c)])) \<and>
      card_loop e (cno, h) = card_loop e (c, h @ [Snd_card_next cno, Snd_ctl_open (card_str c)]) \<and>
      entries (h @ [Snd_card_next cno, Snd_ctl_open (card_str c)]) = entries h) \<and>
   (ret e (h @ [Snd_card_next cno]) = 0 \<and> index_out e (h @ [Snd_card_next cno]) = c \<and> 0 \<le> c \<and>
    ret e (h @ [Snd_card_next cno, Snd_ctl_open (card_str c)]) = 0 \<and>
    ret e (h @ [Snd_card_next cno, Snd_ctl_open (card_str c), Snd_ctl_card_info]) \<noteq> 0 \<longrightarrow>
      card_step e (cno, h) =
        Some (Next (c, h @ [Snd_card_next cno, Snd_ctl_open (card_str c), Snd_ctl_card_info,
                            Snd_ctl_close])) \<and>
      card_loop e (cno, h) =
        card_loop e (c, h @ [Snd_card_next cno, Snd_ctl_open (card_str c), Snd_ctl_card_info,
                             Snd_ctl_close]) \<and>
      entries (h @ [Snd_card_next cno, Snd_ctl_open (card_str c), Snd_ctl_card_info,
                    Snd_ctl_close]) = entries h) \<and>
   (ret e (h @ [Snd_ctl_pcm_next_device dev]) = 0 \<and>
    index_out e (h @ [Snd_ctl_pcm_next_device dev]) = dv \<and> 0 \<le> dv \<and>
    ret e (h @ [Snd_ctl_pcm_next_device dev, Snd_ctl_pcm_info dv]) \<noteq> 0 \<longrightarrow>
      device_step e c nm (dev, h) =
        Next (dv, h @ [Snd_ctl_pcm_next_device dev, Snd_ctl_pcm_info dv]) \<and>
      device_loop e c nm (dev, h) =
        device_loop e c nm (dv, h @ [Snd_ctl_pcm_next_device dev, Snd_ctl_pcm_info dv]) \<and>
      entries (h @ [Snd_ctl_pcm_next_device dev, Snd_ctl_pcm_info dv]) = entries h) \<and>
   alsa_device_list e h =
     card_loop e (- 1, h @ [Obs_property_list_clear,
                            Obs_property_list_add_string ''Default Audio Device'' ''default'']) \<and>
   (alsa_device_list e h = Some h' \<longrightarrow>
      (\<exists>rest. h' = h @ [Obs_property_list_clear,
                         Obs_property_list_add_string ''Default Audio Device'' ''default''] @ rest \<and>
              entries h' = entries h @ (''Default Audio Device'', ''default'') # entries rest))"
proof (intro conjI impI)
  assume a: "ret e (h @ [Snd_card_next cno]) = 0 \<and> index_out e (h @ [Snd_card_next cno]) = c \<and>
    0 \<le> c \<and> ret e (h @ [Snd_card_next cno, Snd_ctl_open (card_str c)]) \<noteq> 0"
  then show step: "card_step e (cno, h) =
      Some (Next (c, h @ [Snd_card_next cno, Snd_ctl_open (card_str c)]))"
    by (simp add: card_step_def Let_def)
  show "card_loop e (cno, h) = card_loop e (c, h @ [Snd_card_next cno, Snd_ctl_open (card_str c)])"
    by (subst card_loop.simps) (simp add: step)
  show "entries (h @ [Snd_card_next cno, Snd_ctl_open (card_str c)]) = entries h"
    by (simp add: entries_append)
next
  assume a: "ret e (h @ [Snd_card_next cno]) = 0 \<and> index_out e (h @ [Snd_card_next cno]) = c \<and>
    0 \<le> c \<and> ret e (h @ [Snd_card_next cno, Snd_ctl_open (card_str c)]) = 0 \<and>
    ret e (h @ [Snd_card_next cno, Snd_ctl_open (card_str c), Snd_ctl_card_info]) \<noteq> 0"
  then show step: "card_step e (cno, h) =
        Some (Next (c, h @ [Snd_card_next cno, Snd_ctl_open (card_str c), Snd_ctl_card_info,
                            Snd_ctl_close]))"
    by (simp add: card_step_def Let_def)
  show "card_loop e (cno, h) =
        card_loop e (c, h @ [Snd_card_next cno, Snd_ctl_open (card_str c), Snd_ctl_card_info,
                             Snd_ctl_close])"
    by (subst card_loop.simps) (simp add: step)
  show "entries (h @ [Snd_card_next cno, Snd_ctl_open (card_str c), Snd_ctl_card_info,
                    Snd_ctl_close]) = entries h"
    by (simp add: entries_append)
next
  assume a: "ret e (h @ [Snd_ctl_pcm_next_device dev]) = 0 \<and>
    index_out e (h @ [Snd_ctl_pcm_next_device dev]) = dv \<and> 0 \<le> dv \<and>
    ret e (h @ [Snd_ctl_pcm_next_device dev, Snd_ctl_pcm_info dv]) \<noteq> 0"
  then show step: "device_step e c nm (dev, h) =
        Next (dv, h @ [Snd_ctl_pcm_next_device dev, Snd_ctl_pcm_info dv])"
    by (simp add: device_step_def Let_def)
  show "device_loop e c nm (dev, h) =
        device_loop e c nm (dv, h @ [Snd_ctl_pcm_next_device dev, Snd_ctl_pcm_info dv])"
    by (subst device_loop.simps) (simp add: step)
  show "entries (h @ [Snd_ctl_pcm_next_device dev, Snd_ctl_pcm_info dv]) = entries h"
    by (simp add: entries_append)
next
  show "alsa_device_list e h =
     card_loop e (- 1, h @ [Obs_property_list_clear,
                            Obs_property_list_add_string ''Default Audio Device'' ''default''])"
    by (simp add: alsa_device_list_def)
next
  assume "alsa_device_list e h = Some h'"
  then have "card_loop e (- 1, h @ [Obs_property_list_clear,
      Obs_property_list_add_string ''Default Audio Device'' ''default'']) = Some h'"
    by (simp add: alsa_device_list_def)
  from card_loop_extends [OF this] obtain rest where
    "h' = (h @ [Obs_property_list_clear,
      Obs_property_list_add_string ''Default Audio Device'' ''default'']) @ rest" ..
  then have "h' = h @ [Obs_property_list_clear,
                         Obs_property_list_add_string ''Default Audio Device'' ''default''] @ rest \<and>
              entries h' = entries h @ (''Default Audio Device'', ''default'') # entries rest"
    by (simp add: entries_append)
  then show "\<exists>rest. h' = h @ [Obs_property_list_clear,
                         Obs_property_list_add_string ''Default Audio Device'' ''default''] @ rest \<and>
              entries h' = entries h @ (''Default Audio Device'', ''default'') # entries rest"
    ..
qed

text \<open>The whole enumeration on the sample machine: of six devices one is listed, after the default.\<close>

lemma enum_run:
  "alsa_device_list enum_env [] =
     Some [Obs_property_list_clear,
       Obs_property_list_add_string ''Default Audio Device'' ''default'',
       Snd_card_next (- 1), Snd_ctl_open ''hw:0'', Snd_card_next 0,
       Snd_ctl_open ''hw:1'', Snd_ctl_card_info, Snd_ctl_close,
       Snd_card_next 1, Snd_ctl_open ''hw:2'', Snd_ctl_card_info,
       Snd_ctl_pcm_next_device (- 1), Snd_ctl_pcm_info 0,
       Snd_ctl_pcm_next_device 0, Snd_ctl_pcm_info 1,
       Obs_property_list_add_string ''plughw:2,1 (USB Audio, USB Audio #1)'' ''plughw:2,1'',
       Snd_ctl_pcm_next_device 1, Snd_ctl_close, Snd_card_next 2]"
  by (simp add: enum_defs enum_env_def quiet_def)


theorem enumeration_failures_skipped_witness:
  "ret enum_env ([Obs_property_list_clear,
        Obs_property_list_add_string ''Default Audio Device'' ''default''] @
        [Snd_card_next (- 1)]) = 0 \<and>
   index_out enum_env ([Obs_property_list_clear,
        Obs_property_list_add_string ''Default Audio Device'' ''default''] @
        [Snd_card_next (- 1)]) = 0 \<and>
   ret enum_env ([Obs_property_list_clear,
        Obs_property_list_add_string ''Default Audio Device'' ''default''] @
        [Snd_card_next (- 1), Snd_ctl_open (card_str 0)]) \<noteq> 0 \<and>
   card_step enum_env (- 1, [Obs_property_list_clear,
        Obs_property_list_add_string ''Default Audio Device'' ''default'']) =
     Some (Next (0, [Obs_property_list_clear,
        Obs_property_list_add_string ''Default Audio Device'' ''default'',
        Snd_card_next (- 1), Snd_ctl_open ''hw:0''])) \<and>
   ret enum_env ([Snd_card_next (- 1), Snd_ctl_open ''hw:0''] @ [Snd_card_next 0]) = 0 \<and>
   index_out enum_env ([Snd_card_next (- 1), Snd_ctl_open ''hw:0''] @ [Snd_card_next 0]) = 1 \<and>
   ret enum_env ([Snd_card_next (- 1), Snd_ctl_open ''hw:0''] @
        [Snd_card_next 0, Snd_ctl_open (card_str 1)]) = 0 \<and>
   ret enum_env ([Snd_card_next (- 1), Snd_ctl_open ''hw:0''] @
        [Snd_card_next 0, Snd_ctl_open (card_str 1), Snd_ctl_card_info]) \<noteq> 0 \<and>
   card_step enum_env (0, [Snd_card_next (- 1), Snd_ctl_open ''hw:0'']) =
     Some (Next (1, [Snd_card_next (- 1), Snd_ctl_open ''hw:0'', Snd_card_next 0,
                     Snd_ctl_open ''hw:1'', Snd_ctl_card_info, Snd_ctl_close])) \<and>
   ret enum_env ([Snd_ctl_open ''hw:2'', Snd_ctl_card_info] @ [Snd_ctl_pcm_next_device (- 1)]) = 0 \<and>
   index_out enum_env ([Snd_ctl_open ''hw:2'', Snd_ctl_card_info] @
        [Snd_ctl_pcm_next_device (- 1)]) = 0 \<and>
   ret enum_env ([Snd_ctl_open ''hw:2'', Snd_ctl_card_info] @
        [Snd_ctl_pcm_next_device (- 1), Snd_ctl_pcm_info 0]) \<noteq> 0 \<and>
   device_step enum_env 2 ''USB Audio'' (- 1, [Snd_ctl_open ''hw:2'', Snd_ctl_card_info]) =
     Next (0, [Snd_ctl_open ''hw:2'', Snd_ctl_card_info, Snd_ctl_pcm_next_device (- 1),
               Snd_ctl_pcm_info 0]) \<and>
   alsa_device_list enum_env [] =
     Some [Obs_property_list_clear,
       Obs_property_list_add_string ''Default Audio Device'' ''default'',
       Snd_card_next (- 1), Snd_ctl_open ''hw:0'', Snd_card_next 0,
       Snd_ctl_open ''hw:1'', Snd_ctl_card_info, Snd_ctl_close,
       Snd_card_next 1, Snd_ctl_open ''hw:2'', Snd_ctl_card_info,
       Snd_ctl_pcm_next_device (- 1), Snd_ctl_pcm_info 0,
       Snd_ctl_pcm_next_device 0, Snd_ctl_pcm_info 1,
       Obs_property_list_add_string ''plughw:2,1 (USB Audio, USB Audio #1)'' ''plughw:2,1'',
       Snd_ctl_pcm_next_device 1, Snd_ctl_close, Snd_card_next 2] \<and>
   entries [Obs_property_list_clear,
       Obs_property_list_add_string ''Default Audio Device'' ''default'',
       Snd_card_next (- 1), Snd_ctl_open ''hw:0'', Snd_card_next 0,
       Snd_ctl_open ''hw:1'', Snd_ctl_card_info, Snd_ctl_close,
       Snd_card_next 1, Snd_ctl_open ''hw:2'', Snd_ctl_card_info,
       Snd_ctl_pcm_next_device (- 1), Snd_ctl_pcm_info 0,
       Snd_ctl_pcm_next_device 0, Snd_ctl_pcm_info 1,
       Obs_property_list_add_string ''plughw:2,1 (USB Audio, USB Audio #1)'' ''plughw:2,1'',
       Snd_ctl_pcm_next_device 1, Snd_ctl_close, Snd_card_next 2] =
     [(''Default Audio Device'', ''default''),
      (''plughw:2,1 (USB Audio, USB Audio #1)'', ''plughw:2,1'')]"
proof -
  have c0: "card_str 0 = ''hw:0''" and c1: "card_str 1 = ''hw:1''"
    by (simp_all add: card_str_def show_int_def show_nat.simps)
  have a1: "ret enum_env ([Obs_property_list_clear,
        Obs_property_list_add_string ''Default Audio Device'' ''default''] @
        [Snd_card_next (- 1)]) = 0 \<and>
    index_out enum_env ([Obs_property_list_clear,
        Obs_property_list_add_string ''Default Audio Device'' ''default''] @
        [Snd_card_next (- 1)]) = 0 \<and>
    ret enum_env ([Obs_property_list_clear,
        Obs_property_list_add_string ''Default Audio Device'' ''default''] @
        [Snd_card_next (- 1), Snd_ctl_open (card_str 0)]) \<noteq> 0"
    by (simp add: enum_env_def quiet_def c0)
  have b1: "card_step enum_env (- 1, [Obs_property_list_clear,
        Obs_property_list_add_string ''Default Audio Device'' ''default'']) =
     Some (Next (0, [Obs_property_list_clear,
        Obs_property_list_add_string ''Default Audio Device'' ''default'',
        Snd_card_next (- 1), Snd_ctl_open ''hw:0'']))"
    using enumeration_failures_skipped
            [of enum_env "[Obs_property_list_clear,
               Obs_property_list_add_string ''Default Audio Device'' ''default'']" "- 1" 0]
          a1
    by (simp add: c0)
  have a2: "ret enum_env ([Snd_card_next (- 1), Snd_ctl_open ''hw:0''] @ [Snd_card_next 0]) = 0 \<and>
    index_out enum_env ([Snd_card_next (- 1), Snd_ctl_open ''hw:0''] @ [Snd_card_next 0]) = 1 \<and>
    ret enum_env ([Snd_card_next (- 1), Snd_ctl_open ''hw:0''] @
        [Snd_card_next 0, Snd_ctl_open (card_str 1)]) = 0 \<and>
    ret enum_env ([Snd_card_next (- 1), Snd_ctl_open ''hw:0''] @
        [Snd_card_next 0, Snd_ctl_open (card_str 1), Snd_ctl_card_info]) \<noteq> 0"
    by (simp add: enum_env_def quiet_def c1)
  have b2: "card_step enum_env (0, [Snd_card_next (- 1), Snd_ctl_open ''hw:0'']) =
     Some (Next (1, [Snd_card_next (- 1), Snd_ctl_open ''hw:0'', Snd_card_next 0,
                     Snd_ctl_open ''hw:1'', Snd_ctl_card_info, Snd_ctl_close]))"
    using enumeration_failures_skipped
            [of enum_env "[Snd_card_next (- 1), Snd_ctl_open ''hw:0'']" 0 1]
          a2
    by (simp add: c1)
  have a3: "ret enum_env ([Snd_ctl_open ''hw:2'', Snd_ctl_card_info] @
        [Snd_ctl_pcm_next_device (- 1)]) = 0 \<and>
    index_out enum_env ([Snd_ctl_open ''hw:2'', Snd_ctl_card_info] @
        [Snd_ctl_pcm_next_device (- 1)]) = 0 \<and>
    ret enum_env ([Snd_ctl_open ''hw:2'', Snd_ctl_card_info] @
        [Snd_ctl_pcm_next_device (- 1), Snd_ctl_pcm_info 0]) \<noteq> 0"
    by (simp add: enum_env_def quiet_def)
  have b3: "device_step enum_env 2 ''USB Audio'' (- 1, [Snd_ctl_open ''hw:2'', Snd_ctl_card_info]) =
     Next (0, [Snd_ctl_open ''hw:2'', Snd_ctl_card_info, Snd_ctl_pcm_next_device (- 1),
               Snd_ctl_pcm_info 0])"
    using enumeration_failures_skipped
            [of enum_env "[Snd_ctl_open ''hw:2'', Snd_ctl_card_info]" _ 2 "- 1" 0 "''USB Audio''"]
          a3
    by simp
  have b4: "entries [Obs_property_list_clear,
       Obs_property_list_add_string ''Default Audio Device'' ''default'',
       Snd_card_next (- 1), Snd_ctl_open ''hw:0'', Snd_card_next 0,
       Snd_ctl_open ''hw:1'', Snd_ctl_card_info, Snd_ctl_close,
       Snd_card_next 1, Snd_ctl_open ''hw:2'', Snd_ctl_card_info,
       Snd_ctl_pcm_next_device (- 1), Snd_ctl_pcm_info 0,
       Snd_ctl_pcm_next_device 0, Snd_ctl_pcm_info 1,
       Obs_property_list_add_string ''plughw:2,1 (USB Audio, USB Audio #1)'' ''plughw:2,1'',
       Snd_ctl_pcm_next_device 1, Snd_ctl_close, Snd_card_next 2] =
     [(''Default Audio Device'', ''default''),
      (''plughw:2,1 (USB Audio, USB Audio #1)'', ''plughw:2,1'')]"
    using enumeration_failures_skipped
            [of enum_env "[]" _ _ _ _ _
               "[Obs_property_list_clear,
       Obs_property_list_add_string ''Default Audio Device'' ''default'',
       Snd_card_next (- 1), Snd_ctl_open ''hw:0'', Snd_card_next 0,
       Snd_ctl_open ''hw:1'', Snd_ctl_card_info, Snd_ctl_close,
       Snd_card_next 1, Snd_ctl_open ''hw:2'', Snd_ctl_card_info,
       Snd_ctl_pcm_next_device (- 1), Snd_ctl_pcm_info 0,
       Snd_ctl_pcm_next_device 0, Snd_ctl_pcm_info 1,
       Obs_property_list_add_string ''plughw:2,1 (USB Audio, USB Audio #1)'' ''plughw:2,1'',
       Snd_ctl_pcm_next_device 1, Snd_ctl_close, Snd_card_next 2]"]
          enum_run
    by simp
  from a1 b1 a2 b2 a3 b3 b4 enum_run show ?thesis
    by simp
qed

end
